theory Spec2Isabelle
  imports Complex_Main
begin

section \<open>Python values, errors and the random source\<close>

text \<open>
  The module \<^verbatim>\<open>projects/whydense/scalar_sdrs.py\<close> estimates match probabilities of
  sparse scalar vectors by simulation.  Exceptions are values of \<open>py_error + 'a\<close>
  (\<open>Inl\<close> the exception).  Python's unbounded integers are \<open>int\<close>; floating-point
  numbers are idealised as \<open>real\<close>, so rounding of the arithmetic is not represented.
  A two-dimensional tensor is the list of its rows.
\<close>

datatype py_error =
  ZeroDivisionError | IndexError | KeyError | ValueError | RuntimeError | TypeError

type_synonym tensor = "real list list"

definition bind_e :: "py_error + 'a \<Rightarrow> ('a \<Rightarrow> py_error + 'b) \<Rightarrow> py_error + 'b" where
  "bind_e r f = (case r of Inl e \<Rightarrow> Inl e | Inr x \<Rightarrow> f x)"

text \<open>
  The process-wide random state is made explicit: one value of \<open>rng\<close> holds the outcomes
  that one call of the generator consumes.  \<open>unit_draw g i j\<close> is the draw in the unit
  interval behind entry \<open>(i, j)\<close> of \<^verbatim>\<open>uniform_\<close>, and \<open>row_perm g i\<close> is the result of
  the \<open>i\<close>-th call of \<^verbatim>\<open>np.random.permutation\<close>.
\<close>

record rng =
  unit_draw :: "nat \<Rightarrow> nat \<Rightarrow> real"
  row_perm :: "nat \<Rightarrow> nat list"

definition is_permutation :: "nat \<Rightarrow> nat list \<Rightarrow> bool" where
  "is_permutation n p \<longleftrightarrow> distinct p \<and> set p = {0..<n}"

definition uniform_value :: "real \<Rightarrow> real \<Rightarrow> real \<Rightarrow> real" where
  "uniform_value lo hi x = lo + x * (hi - lo)"

text \<open>
  \<^verbatim>\<open>w.data.uniform_(lo, hi)\<close> on a tensor of shape \<open>(m, n)\<close>: every entry is the unit draw
  scaled into the interval; the library rejects an interval with \<open>hi < lo\<close>.
\<close>

definition uniform_fill :: "real \<Rightarrow> real \<Rightarrow> nat \<Rightarrow> nat \<Rightarrow> (nat \<Rightarrow> nat \<Rightarrow> real) \<Rightarrow> py_error + tensor" where
  "uniform_fill lo hi m n u =
     (if hi < lo then Inl RuntimeError
      else Inr (map (\<lambda>i. map (\<lambda>j. uniform_value lo hi (u i j)) [0..<n]) [0..<m]))"

text \<open>The slice \<^verbatim>\<open>xs[:k]\<close> (and \<^verbatim>\<open>xs[0:k]\<close>); a negative bound counts from the end.\<close>

definition py_slice_to :: "'a list \<Rightarrow> int \<Rightarrow> 'a list" where
  "py_slice_to xs k =
     (if 0 \<le> k then take (nat k) xs else take (length xs - nat (- k)) xs)"

text \<open>Python 3 \<^verbatim>\<open>round\<close> of a float: to the nearest integer, ties to the even one.\<close>

definition py_round :: "real \<Rightarrow> int" where
  "py_round x =
     (let f = \<lfloor>x\<rfloor>; d = x - of_int f
      in if d < 1/2 then f else if 1/2 < d then f + 1 else if even f then f else f + 1)"

text \<open>\<^verbatim>\<open>row.nonzero()\<close>: the positions of the non-zero entries, ascending.\<close>

definition nonzero :: "real list \<Rightarrow> nat list" where
  "nonzero row = filter (\<lambda>j. row ! j \<noteq> 0) [0..<length row]"

definition dot :: "real list \<Rightarrow> real list \<Rightarrow> real" where
  "dot x y = sum_list (map (\<lambda>(a, b). a * b) (zip x y))"

text \<open>\<^verbatim>\<open>a.matmul(b.t())\<close>: entry \<open>(i, j)\<close> is the dot product of row \<open>i\<close> of \<open>a\<close> and row \<open>j\<close> of \<open>b\<close>.\<close>

definition matmul_t :: "tensor \<Rightarrow> tensor \<Rightarrow> tensor" where
  "matmul_t a b = map (\<lambda>x. map (\<lambda>y. dot x y) b) a"

text \<open>\<^verbatim>\<open>((d >= theta).sum()).item()\<close>\<close>

definition count_ge :: "tensor \<Rightarrow> real \<Rightarrow> int" where
  "count_ge d theta = int (length (filter (\<lambda>x. theta \<le> x) (concat d)))"

section \<open>Random sparse vector generator\<close>

text \<open>The indexed assignment \<^verbatim>\<open>w.data[zero_wts] = 0.0\<close>, for the indices of one row.\<close>

definition zero_at :: "nat list \<Rightarrow> real list \<Rightarrow> real list" where
  "zero_at idx row = fold (\<lambda>j r. r[j := 0]) idx row"

text \<open>
  \<^verbatim>\<open>get_sparse_tensor(num_nonzeros, input_size, output_size, only_positive, fixed_range)\<close>.
  \<^verbatim>\<open>torch.Tensor(output_size, input_size)\<close> rejects a negative size.  In the zeroing
  branch \<^verbatim>\<open>input_indices\<close> has one row \<^verbatim>\<open>permutation(input_size)[:num_zeros]\<close> per
  output row, and \<^verbatim>\<open>zero_indices[:, :, 1] = input_indices\<close> raises unless its shape
  broadcasts to \<open>(output_size, num_zeros)\<close>: the rows have \<open>min num_zeros input_size\<close>
  entries, which must be \<open>num_zeros\<close> or one; with no output row the array is
  one-dimensional and empty, which does not broadcast either.
\<close>

definition get_sparse_tensor :: "int \<Rightarrow> int \<Rightarrow> int \<Rightarrow> bool \<Rightarrow> real \<Rightarrow> rng \<Rightarrow> py_error + tensor" where
  "get_sparse_tensor num_nonzeros input_size output_size only_positive fixed_range g =
     (if output_size < 0 \<or> input_size < 0 then Inl RuntimeError
      else bind_e
        (uniform_fill (if only_positive then 0 else - fixed_range) fixed_range
           (nat output_size) (nat input_size) (unit_draw g))
        (\<lambda>w. if num_nonzeros < input_size then
               (let num_zeros = input_size - num_nonzeros;
                    input_indices =
                      map (\<lambda>i. py_slice_to (row_perm g i) num_zeros) [0..<nat output_size]
                in if output_size = 0 \<or> (input_size < num_zeros \<and> input_size \<noteq> 1)
                   then Inl ValueError
                   else Inr (map (\<lambda>(idx, row). zero_at idx row) (zip input_indices w)))
              else Inr w))"

text \<open>Outcomes of the random source used in examples: every unit draw is the same
  number, every permutation is the identity on two indices.\<close>

definition rng_half2 :: rng where
  "rng_half2 = \<lparr>unit_draw = (\<lambda>i j. 1/2), row_perm = (\<lambda>i. [0, 1])\<rparr>"

text \<open>Row \<open>i\<close> of the tensor right after \<^verbatim>\<open>uniform_\<close>, before any entry is zeroed.\<close>

definition fill_row :: "bool \<Rightarrow> real \<Rightarrow> rng \<Rightarrow> nat \<Rightarrow> nat \<Rightarrow> real list" where
  "fill_row only_positive fixed_range g n i =
     map (\<lambda>j. uniform_value (if only_positive then 0 else - fixed_range) fixed_range
                 (unit_draw g i j)) [0..<n]"

definition rng_quarter2 :: rng where
  "rng_quarter2 = \<lparr>unit_draw = (\<lambda>i j. 1/4), row_perm = (\<lambda>i. [0, 1])\<rparr>"

section \<open>Noisy variant builder\<close>

text \<open>
  Tensors are objects: \<^verbatim>\<open>get_permuted_tensors\<close> receives a reference to \<^verbatim>\<open>w\<close> and writes
  into the tensor that \<^verbatim>\<open>w.repeat(m2, 1)\<close> allocates.  The store is the list of the
  tensors allocated so far, a reference is an index into it, and allocation appends.
\<close>

type_synonym ref = nat
type_synonym heap = "tensor list"

text \<open>The inner loop \<^verbatim>\<open>for j in indices: w2[i, nz[j]] = 0\<close>; \<^verbatim>\<open>nz[j]\<close> raises when
  \<open>j\<close> is past the end of \<^verbatim>\<open>nz\<close>.\<close>

fun zero_variant :: "heap \<Rightarrow> ref \<Rightarrow> nat \<Rightarrow> nat list \<Rightarrow> nat list \<Rightarrow> py_error + heap" where
  "zero_variant h w2 i nz [] = Inr h"
| "zero_variant h w2 i nz (j # js) =
     (if j < length nz
      then zero_variant (h[w2 := (h ! w2)[i := (h ! w2 ! i)[nz ! j := 0]]]) w2 i nz js
      else Inl IndexError)"

text \<open>The outer loop \<^verbatim>\<open>for i in range(m2)\<close>; \<open>perm i\<close> is the outcome of
  \<^verbatim>\<open>np.random.permutation(kw)\<close> in iteration \<open>i\<close>.\<close>

fun noise_loop :: "heap \<Rightarrow> ref \<Rightarrow> nat list \<Rightarrow> int \<Rightarrow> (nat \<Rightarrow> nat list) \<Rightarrow> nat list \<Rightarrow> py_error + heap" where
  "noise_loop h w2 nz number_to_zero perm [] = Inr h"
| "noise_loop h w2 nz number_to_zero perm (i # rest) =
     bind_e (zero_variant h w2 i nz (py_slice_to (perm i) number_to_zero))
       (\<lambda>h'. noise_loop h' w2 nz number_to_zero perm rest)"

text \<open>
  \<^verbatim>\<open>get_permuted_tensors(w, kw, n, m2, noise_pct)\<close>.  \<^verbatim>\<open>repeat\<close> rejects a negative count
  and tiles the rows of \<^verbatim>\<open>w\<close> \<open>m2\<close> times into a new tensor; \<^verbatim>\<open>w[0]\<close> raises on a
  tensor without rows.  The result is the reference to the new tensor and the store.
\<close>

definition get_permuted_tensors :: "heap \<Rightarrow> ref \<Rightarrow> int \<Rightarrow> int \<Rightarrow> int \<Rightarrow> real \<Rightarrow> (nat \<Rightarrow> nat list) \<Rightarrow> py_error + (ref \<times> heap)" where
  "get_permuted_tensors h w kw n m2 noise_pct perm =
     (if m2 < 0 then Inl RuntimeError
      else
        (let w2 = length h;
             h1 = h @ [concat (replicate (nat m2) (h ! w))]
         in if h ! w = [] then Inl IndexError
            else
              (let nz = nonzero (h ! w ! 0);
                   number_to_zero = py_round (noise_pct * of_int kw)
               in bind_e (noise_loop h1 w2 nz number_to_zero perm [0..<nat m2])
                    (\<lambda>h'. Inr (w2, h')))))"

text \<open>The positions that variant \<open>i\<close> zeroes: the entries of \<^verbatim>\<open>nz\<close> at the first
  \<open>number_to_zero\<close> indices of the variant's permutation.\<close>

definition zeroed_positions :: "real list \<Rightarrow> int \<Rightarrow> nat list \<Rightarrow> nat set" where
  "zeroed_positions row number_to_zero p =
     (\<lambda>t. nonzero row ! t) ` set (py_slice_to p number_to_zero)"

section \<open>Threshold estimator\<close>

definition mean :: "real list \<Rightarrow> real" where
  "mean xs = sum_list xs / of_nat (length xs)"

text \<open>
  \<^verbatim>\<open>get_theta(k, n_trials)\<close>.  \<^verbatim>\<open>np.zeros(n_trials)\<close> rejects a negative length,
  \<^verbatim>\<open>1.0 / k\<close> raises for \<open>k = 0\<close>, and the diagnostic \<^verbatim>\<open>print\<close> evaluates
  \<^verbatim>\<open>the_dots.min()\<close>, which raises on an empty array.
\<close>

definition get_theta :: "int \<Rightarrow> int \<Rightarrow> rng \<Rightarrow> py_error + (real \<times> real list)" where
  "get_theta k n_trials g =
     (if n_trials < 0 then Inl ValueError
      else if k = 0 then Inl ZeroDivisionError
      else bind_e (get_sparse_tensor k k n_trials False (1 / of_int k) g)
        (\<lambda>w1. let the_dots = map (\<lambda>row. dot row row) w1;
                  dot_mean = mean the_dots
              in if the_dots = [] then Inl ValueError
                 else Inr (dot_mean / 2, the_dots)))"

section \<open>Single-trial evaluators\<close>

text \<open>\<^verbatim>\<open>return_matches(kw, kv, n, theta, input_scaling)\<close>; \<open>gw\<close> and \<open>gv\<close> are the
  outcomes of the random source for the weights and for the input vectors.\<close>

definition return_matches :: "int \<Rightarrow> int \<Rightarrow> int \<Rightarrow> real \<Rightarrow> real \<Rightarrow> rng \<Rightarrow> rng \<Rightarrow> py_error + (real \<times> int \<times> int)" where
  "return_matches kw kv n theta input_scaling gw gv =
     (let m1 = 4; m2 = 1000
      in if kw = 0 then Inl ZeroDivisionError
         else bind_e (get_sparse_tensor kw n m1 False (1 / of_int kw) gw)
           (\<lambda>weights. bind_e
              (get_sparse_tensor kv n m2 True (2 * input_scaling / of_int kw) gv)
              (\<lambda>input_vectors.
                 let d = matmul_t input_vectors weights;
                     num_matches = count_ge d theta;
                     pct_matches = of_int num_matches / of_int (m1 * m2)
                 in Inr (pct_matches, num_matches, m1 * m2))))"

text \<open>\<^verbatim>\<open>return_false_negatives(kw, noise_pct, n, theta)\<close>; \<open>gw\<close> holds the outcomes for
  the weight row and \<open>perm\<close> the permutations drawn for the variants.  The weight tensor
  is the only object of the store when the builder is called.\<close>

definition return_false_negatives :: "int \<Rightarrow> real \<Rightarrow> int \<Rightarrow> real \<Rightarrow> rng \<Rightarrow> (nat \<Rightarrow> nat list) \<Rightarrow> py_error + (real \<times> int \<times> int)" where
  "return_false_negatives kw noise_pct n theta gw perm =
     (if kw = 0 then Inl ZeroDivisionError
      else bind_e (get_sparse_tensor kw n 1 False (1 / of_int kw) gw)
        (\<lambda>w. let m2 = 10
             in bind_e (get_permuted_tensors [w] 0 kw n m2 noise_pct perm)
               (\<lambda>(w2, h).
                  let d = matmul_t (h ! w2) (h ! 0);
                      num_matches = count_ge d theta;
                      pct_matches = of_int num_matches / of_int m2
                  in Inr (pct_matches, num_matches, m2))))"

section \<open>Experiment aggregators\<close>

text \<open>A settings record is a dictionary; its values are integers, floats or lists of
  integers.  A missing key raises \<^verbatim>\<open>KeyError\<close>.\<close>

datatype py_value = PyInt int | PyFloat real | PyList "int list"

type_synonym py_dict = "string \<Rightarrow> py_value option"

definition getitem :: "py_dict \<Rightarrow> string \<Rightarrow> py_error + py_value" where
  "getitem d key = (case d key of None \<Rightarrow> Inl KeyError | Some v \<Rightarrow> Inr v)"

fun as_int :: "py_value \<Rightarrow> py_error + int" where
  "as_int (PyInt i) = Inr i"
| "as_int v = Inl TypeError"

fun as_float :: "py_value \<Rightarrow> py_error + real" where
  "as_float (PyFloat x) = Inr x"
| "as_float (PyInt i) = Inr (of_int i)"
| "as_float v = Inl TypeError"

definition get_int :: "py_dict \<Rightarrow> string \<Rightarrow> py_error + int" where
  "get_int d key = bind_e (getitem d key) as_int"

definition get_float :: "py_dict \<Rightarrow> string \<Rightarrow> py_error + real" where
  "get_float d key = bind_e (getitem d key) as_float"

text \<open>Float division \<^verbatim>\<open>float(a) / b\<close> of two integers.\<close>

definition py_truediv :: "int \<Rightarrow> int \<Rightarrow> py_error + real" where
  "py_truediv a b = (if b = 0 then Inl ZeroDivisionError else Inr (of_int a / of_int b))"

text \<open>
  The accumulation loop shared by both aggregators:
  \<^verbatim>\<open>for _ in range(n_trials): pct, num, total = trial(); num_matches += num;
  total_comparisons += total\<close>.  \<open>trial t\<close> is the \<open>t\<close>-th repetition.
\<close>

fun run_trials :: "(nat \<Rightarrow> py_error + (real \<times> int \<times> int)) \<Rightarrow> nat list \<Rightarrow> int \<Rightarrow> int \<Rightarrow> py_error + (int \<times> int)" where
  "run_trials trial [] num_matches total_comparisons = Inr (num_matches, total_comparisons)"
| "run_trials trial (t # ts) num_matches total_comparisons =
     bind_e (trial t)
       (\<lambda>(pct, num, total). run_trials trial ts (num_matches + num) (total_comparisons + total))"

text \<open>
  Python resolves the names \<^verbatim>\<open>return_false_negatives\<close> and \<^verbatim>\<open>return_matches\<close> when
  the call in the loop runs.  The body of each aggregator is therefore modelled with
  the single-trial evaluator as a parameter: \<open>trial\<close> receives the arguments of the call
  and the number \<open>t\<close> of the repetition.  The module's own aggregator is the body with
  the module's evaluator, run on the outcomes of the random source for repetition \<open>t\<close>.
\<close>

text \<open>The body of \<^verbatim>\<open>compute_false_negatives(args)\<close>; \<open>gtheta\<close> holds the outcomes behind
  \<^verbatim>\<open>get_theta(kw)\<close>.\<close>

definition compute_false_negatives_with :: "(int \<Rightarrow> real \<Rightarrow> int \<Rightarrow> real \<Rightarrow> nat \<Rightarrow> py_error + (real \<times> int \<times> int)) \<Rightarrow> py_dict \<Rightarrow> rng \<Rightarrow> py_error + py_dict" where
  "compute_false_negatives_with trial args gtheta =
     bind_e (get_int args ''n'') (\<lambda>n.
     bind_e (get_int args ''kw'') (\<lambda>kw.
     bind_e (get_float args ''noise_pct'') (\<lambda>noise_pct.
     bind_e (get_int args ''n_trials'') (\<lambda>n_trials.
     bind_e (get_theta kw 100000 gtheta) (\<lambda>(theta, the_dots).
     bind_e (run_trials (\<lambda>t. trial kw noise_pct n theta t) [0..<nat n_trials] 0 0)
       (\<lambda>(num_matches, total_comparisons).
     bind_e (py_truediv num_matches total_comparisons) (\<lambda>q.
       let pct_false_negatives = 1 - q
       in Inr (args(''pctFalse'' \<mapsto> PyFloat pct_false_negatives)))))))))"

definition fn_trial :: "(nat \<Rightarrow> rng \<times> (nat \<Rightarrow> nat list)) \<Rightarrow> int \<Rightarrow> real \<Rightarrow> int \<Rightarrow> real \<Rightarrow> nat \<Rightarrow> py_error + (real \<times> int \<times> int)" where
  "fn_trial trial_rng kw noise_pct n theta t =
     return_false_negatives kw noise_pct n theta (fst (trial_rng t)) (snd (trial_rng t))"

text \<open>\<^verbatim>\<open>compute_false_negatives(args)\<close>; \<open>trial_rng t\<close> holds the outcomes behind
  repetition \<open>t\<close>.\<close>

definition compute_false_negatives :: "py_dict \<Rightarrow> rng \<Rightarrow> (nat \<Rightarrow> rng \<times> (nat \<Rightarrow> nat list)) \<Rightarrow> py_error + py_dict" where
  "compute_false_negatives args gtheta trial_rng =
     compute_false_negatives_with (fn_trial trial_rng) args gtheta"

text \<open>The body of \<^verbatim>\<open>compute_match_probability(args)\<close>.  \<^verbatim>\<open>args["input_scaling"]\<close> is
  read in every repetition.\<close>

definition compute_match_probability_with :: "(int \<Rightarrow> int \<Rightarrow> int \<Rightarrow> real \<Rightarrow> real \<Rightarrow> nat \<Rightarrow> py_error + (real \<times> int \<times> int)) \<Rightarrow> py_dict \<Rightarrow> py_error + py_dict" where
  "compute_match_probability_with trial args =
     bind_e (get_int args ''k'') (\<lambda>kv0.
     bind_e (get_int args ''n'') (\<lambda>n.
     bind_e (get_int args ''kw'') (\<lambda>kw.
     bind_e (get_float args ''theta'') (\<lambda>theta.
       let kv = (if kv0 = - 1 then py_round (of_int n / 2) else kv0)
       in
     bind_e (get_int args ''n_trials'') (\<lambda>n_trials.
     bind_e (run_trials
               (\<lambda>t. bind_e (get_float args ''input_scaling'')
                      (\<lambda>s. trial kw kv n theta s t))
               [0..<nat n_trials] 0 0) (\<lambda>(num_matches, total_comparisons).
     bind_e (py_truediv num_matches total_comparisons) (\<lambda>pct_matches.
       Inr (args(''pct_matches'' \<mapsto> PyFloat pct_matches)))))))))"

definition match_trial :: "(nat \<Rightarrow> rng \<times> rng) \<Rightarrow> int \<Rightarrow> int \<Rightarrow> int \<Rightarrow> real \<Rightarrow> real \<Rightarrow> nat \<Rightarrow> py_error + (real \<times> int \<times> int)" where
  "match_trial trial_rng kw kv n theta s t =
     return_matches kw kv n theta s (fst (trial_rng t)) (snd (trial_rng t))"

text \<open>\<^verbatim>\<open>compute_match_probability(args)\<close>; \<open>trial_rng t\<close> holds the outcomes behind
  repetition \<open>t\<close>.\<close>

definition compute_match_probability :: "py_dict \<Rightarrow> (nat \<Rightarrow> rng \<times> rng) \<Rightarrow> py_error + py_dict" where
  "compute_match_probability args trial_rng =
     compute_match_probability_with (match_trial trial_rng) args"

text \<open>The settings record that \<^verbatim>\<open>compute_match_probabilities\<close> builds for the
  entry \<open>(ki, ni)\<close> of its grid.\<close>

definition match_settings :: "int \<Rightarrow> int \<Rightarrow> int \<Rightarrow> real \<Rightarrow> int \<Rightarrow> real \<Rightarrow> nat \<Rightarrow> nat \<Rightarrow> py_dict" where
  "match_settings k kw n theta n_trials input_scale ki ni =
     [''k'' \<mapsto> PyInt k, ''kw'' \<mapsto> PyInt kw, ''n'' \<mapsto> PyInt n, ''theta'' \<mapsto> PyFloat theta,
      ''n_trials'' \<mapsto> PyInt n_trials, ''input_scaling'' \<mapsto> PyFloat input_scale,
      ''error_index'' \<mapsto> PyList [int ki, int ni]]"

section \<open>Sweep driver for false negatives\<close>

text \<open>Running the worker on every settings record, in list order; the first exception
  ends the sweep.  \<open>worker e a\<close> is the worker on record \<open>a\<close>, the \<open>e\<close>-th of the list.
  The pool of the branch \<^verbatim>\<open>num_workers > 1\<close> hands back the results of
  \<^verbatim>\<open>map_async\<close> in the order of the submitted list and re-raises a worker's exception
  on \<^verbatim>\<open>rs.get()\<close>; scheduling and the progress loop are not represented.\<close>

fun run_workers :: "(nat \<Rightarrow> py_dict \<Rightarrow> py_error + py_dict) \<Rightarrow> nat \<Rightarrow> py_dict list \<Rightarrow> py_error + py_dict list" where
  "run_workers worker e [] = Inr []"
| "run_workers worker e (a # rest) =
     bind_e (worker e a) (\<lambda>r. bind_e (run_workers worker (Suc e) rest) (\<lambda>rs. Inr (r # rs)))"

text \<open>The store \<^verbatim>\<open>errors[i] = x\<close> into a one-dimensional array; a negative index counts
  from the end.\<close>

definition setitem :: "real list \<Rightarrow> int \<Rightarrow> real \<Rightarrow> py_error + real list" where
  "setitem xs i x =
     (let len = int (length xs); j = (if i < 0 then len + i else i)
      in if 0 \<le> j \<and> j < len then Inr (xs[nat j := x]) else Inl IndexError)"

text \<open>The read-out loop \<^verbatim>\<open>for r in result: errors[r["error_index"]] = r["pct_false"]\<close>;
  the right-hand side is evaluated first.\<close>

fun read_out :: "py_dict list \<Rightarrow> real list \<Rightarrow> py_error + real list" where
  "read_out [] errors = Inr errors"
| "read_out (r # rest) errors =
     bind_e (get_float r ''pct_false'') (\<lambda>x.
     bind_e (get_int r ''error_index'') (\<lambda>i.
     bind_e (setitem errors i x) (\<lambda>errors'. read_out rest errors')))"

definition fn_settings :: "int \<Rightarrow> int \<Rightarrow> int \<Rightarrow> nat \<Rightarrow> real \<Rightarrow> py_dict" where
  "fn_settings kw n n_trials ni noise =
     [''kw'' \<mapsto> PyInt kw, ''n'' \<mapsto> PyInt n, ''noise_pct'' \<mapsto> PyFloat noise,
      ''n_trials'' \<mapsto> PyInt n_trials, ''error_index'' \<mapsto> PyInt (int ni)]"

text \<open>The list of settings records that the driver builds, one per noise level,
  each carrying its index \<open>ni\<close> under \<^verbatim>\<open>error_index\<close>.\<close>

definition fn_sweep_settings :: "real list \<Rightarrow> int \<Rightarrow> int \<Rightarrow> int \<Rightarrow> py_dict list" where
  "fn_sweep_settings listof_noise kw n n_trials =
     map (\<lambda>(ni, noise). fn_settings kw n n_trials ni noise)
       (zip [0..<length listof_noise] listof_noise)"

text \<open>The worker on the \<open>e\<close>-th record; \<open>gs e\<close> holds the outcomes of the random
  source for that setting.\<close>

definition fn_worker :: "(nat \<Rightarrow> rng \<times> (nat \<Rightarrow> rng \<times> (nat \<Rightarrow> nat list))) \<Rightarrow> nat \<Rightarrow> py_dict \<Rightarrow> py_error + py_dict" where
  "fn_worker gs e a = compute_false_negatives a (fst (gs e)) (snd (gs e))"

text \<open>
  \<^verbatim>\<open>compute_false_negatives_parallel(listof_noise, kw, num_workers, n_trials, n)\<close>, up to
  the array \<^verbatim>\<open>errors\<close> handed to the plot.
\<close>

definition compute_false_negatives_parallel :: "real list \<Rightarrow> int \<Rightarrow> int \<Rightarrow> int \<Rightarrow> int \<Rightarrow> (nat \<Rightarrow> rng \<times> (nat \<Rightarrow> rng \<times> (nat \<Rightarrow> nat list))) \<Rightarrow> py_error + real list" where
  "compute_false_negatives_parallel listof_noise kw num_workers n_trials n gs =
     (let args = fn_sweep_settings listof_noise kw n n_trials
      in bind_e (if 1 < num_workers then run_workers (fn_worker gs) 0 args
                 else run_workers (fn_worker gs) 0 args)
           (\<lambda>result. read_out result (replicate (length listof_noise) 0)))"

section \<open>Auxiliary definitions for the statements\<close>

text \<open>Variant \<open>i\<close> as a function of the source row: the row with the entries at
  \<^verbatim>\<open>nz[j]\<close> zeroed, for the indices \<open>j\<close> that the variant draws.\<close>

definition variant_row :: "nat list \<Rightarrow> int \<Rightarrow> (nat \<Rightarrow> nat list) \<Rightarrow> real list \<Rightarrow> nat \<Rightarrow> real list" where
  "variant_row nz k perm row i = zero_at (map (\<lambda>j. nz ! j) (py_slice_to (perm i) k)) row"

text \<open>A source row with three non-zero entries, a dense row with two, and the
  outcome of the random source in which every permutation of two indices is the
  reversal.\<close>

definition row3 :: "real list" where
  "row3 = [1/3, - 1/3, 1/6]"

definition row2 :: "real list" where
  "row2 = [1/3, - 1/3]"

definition perm_rev2 :: "nat \<Rightarrow> nat list" where
  "perm_rev2 = (\<lambda>i. [1, 0])"

definition perm_rev3 :: "nat \<Rightarrow> nat list" where
  "perm_rev3 = (\<lambda>i. [2, 1, 0])"

text \<open>The outcome of the random source in which every unit draw is \<open>u\<close> and every
  permutation is the identity on \<open>n\<close> indices.\<close>

definition rng_id :: "nat \<Rightarrow> real \<Rightarrow> rng" where
  "rng_id n u = \<lparr>unit_draw = (\<lambda>i j. u), row_perm = (\<lambda>i. [0..<n])\<rparr>"

text \<open>Outcomes of the random source for every repetition of an aggregator.\<close>

definition match_rng0 :: "nat \<Rightarrow> rng \<times> rng" where
  "match_rng0 = (\<lambda>t. (rng_id 2 (1/4), rng_id 2 (1/4)))"

definition fn_rng0 :: "nat \<Rightarrow> rng \<times> (nat \<Rightarrow> nat list)" where
  "fn_rng0 = (\<lambda>t. (rng_id 2 (1/4), perm_rev2))"

definition sweep_rng0 :: "nat \<Rightarrow> rng \<times> (nat \<Rightarrow> rng \<times> (nat \<Rightarrow> nat list))" where
  "sweep_rng0 = (\<lambda>e. (rng_id 2 (1/4), fn_rng0))"

text \<open>A single-trial evaluator with deliberately unequal batch sizes: repetition 0
  matches 1 of 2 comparisons, every later one 0 of 8.\<close>

definition unequal_trial :: "nat \<Rightarrow> py_error + (real \<times> int \<times> int)" where
  "unequal_trial t = (if t = 0 then Inr (1/2, 1, 2) else Inr (0, 0, 8))"

section \<open>Lemmas on the generator\<close>

lemma zero_at_length [simp]: "length (zero_at idx row) = length row"
  unfolding zero_at_def by (induction idx arbitrary: row) auto

lemma zero_at_nth:
  "j < length row \<Longrightarrow> zero_at idx row ! j = (if j \<in> set idx then 0 else row ! j)"
  unfolding zero_at_def
proof (induction idx arbitrary: row)
  case Nil
  then show ?case by simp
next
  case (Cons a idx)
  have "fold (\<lambda>j r. r[j := 0]) idx (row[a := 0]) ! j =
        (if j \<in> set idx then 0 else row[a := 0] ! j)"
    using Cons.IH [of "row[a := 0]"] Cons.prems by simp
  then show ?case using Cons.prems by (auto simp: nth_list_update)
qed

lemma nonzero_zero_at_set:
  "set (nonzero (zero_at idx row)) = set (nonzero row) - set idx"
  unfolding nonzero_def by (auto simp: zero_at_nth split: if_splits)

lemma nonzero_zero_at_le:
  assumes "distinct idx" "set idx \<subseteq> {0..<length row}"
  shows "length (nonzero (zero_at idx row)) \<le> length row - length idx"
proof -
  have "length (nonzero (zero_at idx row)) = card (set (nonzero row) - set idx)"
    using nonzero_zero_at_set [of idx row] distinct_card [of "nonzero (zero_at idx row)"]
    by (simp add: nonzero_def)
  also have "\<dots> \<le> card ({0..<length row} - set idx)"
    by (rule card_mono) (auto simp: nonzero_def)
  also have "\<dots> = length row - length idx"
    using assms by (simp add: card_Diff_subset distinct_card)
  finally show ?thesis .
qed

lemma nonzero_zero_at_eq:
  assumes "distinct idx" "set idx \<subseteq> {0..<length row}" "\<forall>j<length row. row ! j \<noteq> 0"
  shows "length (nonzero (zero_at idx row)) = length row - length idx"
proof -
  have full: "set (nonzero row) = {0..<length row}"
    using assms(3) unfolding nonzero_def by auto
  have "length (nonzero (zero_at idx row)) = card (set (nonzero row) - set idx)"
    using nonzero_zero_at_set [of idx row] distinct_card [of "nonzero (zero_at idx row)"]
    by (simp add: nonzero_def)
  also have "\<dots> = length row - length idx"
    using assms(1,2) full by (simp add: card_Diff_subset distinct_card)
  finally show ?thesis .
qed

lemma nonzero_le_length: "length (nonzero row) \<le> length row"
  unfolding nonzero_def by (metis length_filter_le length_upt diff_zero)

lemma nonzero_all: "\<forall>j<length row. row ! j \<noteq> 0 \<Longrightarrow> length (nonzero row) = length row"
  unfolding nonzero_def by (simp add: filter_id_conv)

lemma get_sparse_tensor_rows:
  assumes "0 \<le> k" "0 \<le> n" "1 \<le> m" "0 \<le> fixed_range"
  shows "get_sparse_tensor k n m only_positive fixed_range g =
     Inr (map (\<lambda>i. if k < n then zero_at (take (nat (n - k)) (row_perm g i))
                                  (fill_row only_positive fixed_range g (nat n) i)
                    else fill_row only_positive fixed_range g (nat n) i) [0..<nat m])"
  using assms
  by (auto simp: get_sparse_tensor_def bind_e_def uniform_fill_def Let_def py_slice_to_def
      fill_row_def zip_map_map map_zip_map zip_same_conv_map intro!: nth_equalityI)

lemma fill_row_length [simp]: "length (fill_row p r g n i) = n"
  by (simp add: fill_row_def)

lemma perm_take_facts:
  assumes "is_permutation n p" "z \<le> n"
  shows "distinct (take z p)" "set (take z p) \<subseteq> {0..<n}" "length (take z p) = z"
proof -
  from assms(1) have d: "distinct p" and s: "set p = {0..<n}"
    by (simp_all add: is_permutation_def)
  from d s have "length p = n" using distinct_card [of p] by simp
  then show "length (take z p) = z" using assms(2) by simp
  show "distinct (take z p)" using d by simp
  show "set (take z p) \<subseteq> {0..<n}" using s set_take_subset [of z p] by simp
qed

lemma sparse_row_facts:
  assumes p: "is_permutation n p" and z: "z \<le> n" and f: "length f = n"
  shows "length (nonzero (zero_at (take z p) f)) \<le> n - z"
    and "(\<forall>j<n. f ! j \<noteq> 0) \<Longrightarrow> length (nonzero (zero_at (take z p) f)) = n - z"
    and "z = n \<Longrightarrow> zero_at (take z p) f = replicate n 0"
proof -
  note pf = perm_take_facts [OF p z]
  have sub: "set (take z p) \<subseteq> {0..<length f}" using pf(2) f by simp
  show "length (nonzero (zero_at (take z p) f)) \<le> n - z"
    using nonzero_zero_at_le [OF pf(1) sub] pf(3) f by simp
  show "length (nonzero (zero_at (take z p) f)) = n - z" if "\<forall>j<n. f ! j \<noteq> 0"
    using nonzero_zero_at_eq [OF pf(1) sub] that pf(3) f by simp
  show "zero_at (take z p) f = replicate n 0" if "z = n"
  proof (rule nth_equalityI)
    show "length (zero_at (take z p) f) = length (replicate n (0::real))" using f by simp
  next
    fix j assume "j < length (zero_at (take z p) f)"
    then have j: "j < n" using f by simp
    have "length p = n" using p distinct_card [of p] by (simp add: is_permutation_def)
    then have "set (take z p) = {0..<n}" using p that by (simp add: is_permutation_def)
    then show "zero_at (take z p) f ! j = replicate n 0 ! j"
      using j f by (simp add: zero_at_nth)
  qed
qed

subsection \<open>Claim C3: non-zero entries of a generated row\<close>

text \<open>
  C3, as amended.  For \<open>k \<ge> 0\<close>, \<open>n > 0\<close>, batch size \<open>m \<ge> 1\<close> and a non-negative
  range, the generator returns \<open>m\<close> rows of length \<open>n\<close> without raising.  When \<open>k < n\<close>
  the entries of row \<open>i\<close> at the first \<open>n - k\<close> positions of the row's own permutation
  are zero and every other entry is the drawn value; when \<open>k \<ge> n\<close> no entry is zeroed.
  Hence a row has at most \<open>min k n\<close> non-zero entries, and exactly \<open>min k n\<close> when
  none of the row's drawn values is zero; \<open>k = 0\<close> gives all-zero rows.
\<close>

theorem get_sparse_tensor_nonzero_count:
  assumes "0 \<le> k" and "0 < n" and "1 \<le> m" and "0 \<le> fixed_range"
    and "\<forall>i<nat m. is_permutation (nat n) (row_perm g i)"
  shows "\<exists>w. get_sparse_tensor k n m only_positive fixed_range g = Inr w \<and> length w = nat m \<and>
    (\<forall>i<nat m. length (w ! i) = nat n \<and>
       (\<forall>j<nat n. w ! i ! j =
          (if k < n \<and> j \<in> set (take (nat (n - k)) (row_perm g i)) then 0
           else fill_row only_positive fixed_range g (nat n) i ! j)) \<and>
       length (nonzero (w ! i)) \<le> nat (min k n) \<and>
       ((\<forall>j<nat n. fill_row only_positive fixed_range g (nat n) i ! j \<noteq> 0) \<longrightarrow>
          length (nonzero (w ! i)) = nat (min k n)) \<and>
       (k = 0 \<longrightarrow> w ! i = replicate (nat n) 0))"
proof -
  define f where "f = fill_row only_positive fixed_range g (nat n)"
  define row where "row = (\<lambda>i. if k < n then zero_at (take (nat (n - k)) (row_perm g i)) (f i) else f i)"
  define w where "w = map row [0..<nat m]"
  have fl: "length (f i) = nat n" for i by (simp add: f_def)
  have ret: "get_sparse_tensor k n m only_positive fixed_range g = Inr w"
    unfolding w_def row_def f_def using assms(1-4) by (intro get_sparse_tensor_rows) simp_all
  have len: "length w = nat m" by (simp add: w_def)
  have rows: "length (w ! i) = nat n \<and>
       (\<forall>j<nat n. w ! i ! j =
          (if k < n \<and> j \<in> set (take (nat (n - k)) (row_perm g i)) then 0 else f i ! j)) \<and>
       length (nonzero (w ! i)) \<le> nat (min k n) \<and>
       ((\<forall>j<nat n. f i ! j \<noteq> 0) \<longrightarrow> length (nonzero (w ! i)) = nat (min k n)) \<and>
       (k = 0 \<longrightarrow> w ! i = replicate (nat n) 0)" if i: "i < nat m" for i
  proof (cases "k < n")
    case True
    have wi: "w ! i = zero_at (take (nat (n - k)) (row_perm g i)) (f i)"
      using i True by (simp add: w_def row_def)
    have p: "is_permutation (nat n) (row_perm g i)" using assms(5) i by simp
    have z: "nat (n - k) \<le> nat n" using assms(1) by simp
    have d: "nat n - nat (n - k) = nat k" "nat (min k n) = nat k" using True assms(1) by simp_all
    note sf = sparse_row_facts [OF p z fl]
    have "k = 0 \<Longrightarrow> nat (n - k) = nat n" by simp
    then show ?thesis
      using True sf d by (auto simp: wi fl zero_at_nth)
  next
    case False
    have wi: "w ! i = f i" using i False by (simp add: w_def row_def)
    have d: "nat (min k n) = nat n" using False by simp
    have "length (nonzero (f i)) \<le> nat n" using nonzero_le_length [of "f i"] fl by simp
    moreover have "length (nonzero (f i)) = nat n" if "\<forall>j<nat n. f i ! j \<noteq> 0"
      using nonzero_all [of "f i"] that fl by simp
    ultimately show ?thesis using False assms(1,2) d by (auto simp: wi fl)
  qed
  show ?thesis using ret len rows unfolding f_def by (intro exI [of _ w]) simp
qed

theorem get_sparse_tensor_nonzero_count_witness:
  "\<exists>w. get_sparse_tensor 1 2 1 False (1/24) rng_quarter2 = Inr w \<and> length w = 1 \<and>
     length (w ! 0) = 2 \<and> length (nonzero (w ! 0)) = 1"
proof -
  have h1: "(0::int) \<le> 1" and h2: "(0::int) < 2" and h3: "(1::int) \<le> 1"
    and h4: "(0::real) \<le> 1/24" by simp_all
  have h5: "\<forall>i<nat 1. is_permutation (nat 2) (row_perm rng_quarter2 i)"
    by (auto simp: is_permutation_def rng_quarter2_def)
  have nz: "\<forall>j<nat 2. fill_row False (1/24) rng_quarter2 (nat 2) 0 ! j \<noteq> 0"
    by (simp add: fill_row_def rng_quarter2_def uniform_value_def)
  from get_sparse_tensor_nonzero_count [OF h1 h2 h3 h4 h5, of False]
  obtain w where w: "get_sparse_tensor 1 2 1 False (1/24) rng_quarter2 = Inr w"
    "length w = nat 1"
    and rows: "\<forall>i<nat 1. length (w ! i) = nat 2 \<and>
       (\<forall>j<nat 2. w ! i ! j =
          (if (1::int) < 2 \<and> j \<in> set (take (nat (2 - 1)) (row_perm rng_quarter2 i)) then 0
           else fill_row False (1/24) rng_quarter2 (nat 2) i ! j)) \<and>
       length (nonzero (w ! i)) \<le> nat (min 1 2) \<and>
       ((\<forall>j<nat 2. fill_row False (1/24) rng_quarter2 (nat 2) i ! j \<noteq> 0) \<longrightarrow>
          length (nonzero (w ! i)) = nat (min 1 2)) \<and>
       ((1::int) = 0 \<longrightarrow> w ! i = replicate (nat 2) 0)"
    by blast
  from rows have "length (w ! 0) = nat 2"
    and "(\<forall>j<nat 2. fill_row False (1/24) rng_quarter2 (nat 2) 0 ! j \<noteq> 0) \<longrightarrow>
          length (nonzero (w ! 0)) = nat (min 1 2)"
    by simp_all
  with nz have "length (w ! 0) = 2" and "length (nonzero (w ! 0)) = 1" by simp_all
  with w show ?thesis by simp
qed

text \<open>
  C3 as stated fails when a drawn value is itself zero: with range \<open>1/24\<close>, symmetric
  mode and every unit draw one half, \<^verbatim>\<open>uniform_(-1/24, 1/24)\<close> fills a \<open>1 \<times> 2\<close>
  tensor with zeros; for \<open>k = n = 2\<close> nothing is zeroed and the returned row has no
  non-zero entry, not \<open>min 2 2 = 2\<close>.
\<close>

theorem get_sparse_tensor_zero_draw_counterexample:
  "get_sparse_tensor 2 2 1 False (1/24) rng_half2 = Inr [[0, 0]] \<and>
   length (nonzero [0, 0]) \<noteq> nat (min 2 2)"
  by (simp add: get_sparse_tensor_def bind_e_def uniform_fill_def uniform_value_def
      rng_half2_def nonzero_def upt_rec)

section \<open>Lemmas on the noisy variant builder\<close>

lemma zero_variant_ok:
  assumes "\<forall>j\<in>set js. j < length nz" "w2 < length h" "i < length (h ! w2)"
  shows "zero_variant h w2 i nz js =
         Inr (h[w2 := (h ! w2)[i := zero_at (map (\<lambda>j. nz ! j) js) (h ! w2 ! i)]])"
  using assms
proof (induction js arbitrary: h)
  case Nil
  then show ?case by (simp add: zero_at_def)
next
  case (Cons j js)
  let ?h = "h[w2 := (h ! w2)[i := (h ! w2 ! i)[nz ! j := 0]]]"
  have a: "w2 < length ?h" "i < length (?h ! w2)" using Cons.prems by simp_all
  have b: "\<forall>j\<in>set js. j < length nz" using Cons.prems by simp
  have "zero_variant ?h w2 i nz js =
        Inr (?h[w2 := (?h ! w2)[i := zero_at (map (\<lambda>j. nz ! j) js) (?h ! w2 ! i)]])"
    by (rule Cons.IH [OF b a])
  then show ?case using Cons.prems by (simp add: zero_at_def)
qed

lemma zero_variant_fault:
  assumes "\<exists>j\<in>set js. length nz \<le> j"
  shows "zero_variant h w2 i nz js = Inl IndexError"
  using assms
  by (induction js arbitrary: h) auto

lemma zero_variant_frame:
  "zero_variant h w2 i nz js = Inr h' \<Longrightarrow>
     length h' = length h \<and> (\<forall>r. r \<noteq> w2 \<longrightarrow> h' ! r = h ! r)"
proof (induction js arbitrary: h)
  case Nil
  then show ?case by simp
next
  case (Cons j js)
  then show ?case by (auto split: if_splits)
qed

lemma noise_loop_frame:
  "noise_loop h w2 nz k perm is = Inr h' \<Longrightarrow>
     length h' = length h \<and> (\<forall>r. r \<noteq> w2 \<longrightarrow> h' ! r = h ! r)"
proof (induction "is" arbitrary: h)
  case Nil
  then show ?case by simp
next
  case (Cons i rest)
  from Cons.prems obtain h1 where
    s1: "zero_variant h w2 i nz (py_slice_to (perm i) k) = Inr h1" and
    s2: "noise_loop h1 w2 nz k perm rest = Inr h'"
    by (auto simp: bind_e_def split: sum.splits)
  from zero_variant_frame [OF s1] Cons.IH [OF s2] show ?case by simp
qed

lemma zero_variant_total:
  "\<forall>j\<in>set js. j < length nz \<Longrightarrow> \<exists>h'. zero_variant h w2 i nz js = Inr h'"
  by (induction js arbitrary: h) auto

lemma noise_loop_fault:
  assumes "\<exists>i\<in>set is. \<exists>j\<in>set (py_slice_to (perm i) k). length nz \<le> j"
  shows "noise_loop h w2 nz k perm is = Inl IndexError"
  using assms
proof (induction "is" arbitrary: h)
  case Nil
  then show ?case by simp
next
  case (Cons i rest)
  show ?case
  proof (cases "\<exists>j\<in>set (py_slice_to (perm i) k). length nz \<le> j")
    case True
    then show ?thesis by (simp add: zero_variant_fault bind_e_def)
  next
    case False
    then have rest: "\<exists>i\<in>set rest. \<exists>j\<in>set (py_slice_to (perm i) k). length nz \<le> j"
      using Cons.prems by auto
    from False have "\<forall>j\<in>set (py_slice_to (perm i) k). j < length nz" by auto
    from zero_variant_total [OF this] obtain h1 where
      "zero_variant h w2 i nz (py_slice_to (perm i) k) = Inr h1" by blast
    then show ?thesis using Cons.IH [OF rest] by (simp add: bind_e_def)
  qed
qed

lemma noise_loop_ok:
  assumes "\<forall>i\<in>set is. \<forall>j\<in>set (py_slice_to (perm i) k). j < length nz"
    and "w2 < length h" and "\<forall>i\<in>set is. i < length (h ! w2)" and "distinct is"
  shows "noise_loop h w2 nz k perm is =
         Inr (h[w2 := map (\<lambda>i. if i \<in> set is then variant_row nz k perm (h ! w2 ! i) i
                                 else h ! w2 ! i) [0..<length (h ! w2)]])"
  using assms
proof (induction "is" arbitrary: h)
  case Nil
  have "map (\<lambda>i. h ! w2 ! i) [0..<length (h ! w2)] = h ! w2" by (rule map_nth)
  then show ?case by simp
next
  case (Cons i rest)
  define T where "T = h ! w2"
  define v where "v = variant_row nz k perm (T ! i) i"
  define h1 where "h1 = h[w2 := T[i := v]]"
  have i: "i < length T" and inr: "i \<notin> set rest" using Cons.prems by (simp_all add: T_def)
  have s1: "zero_variant h w2 i nz (py_slice_to (perm i) k) = Inr h1"
    using zero_variant_ok [of "py_slice_to (perm i) k" nz w2 h i] Cons.prems
    by (simp add: h1_def v_def T_def variant_row_def)
  have h1w: "h1 ! w2 = T[i := v]" using Cons.prems by (simp add: h1_def)
  have p1: "\<forall>i\<in>set rest. \<forall>j\<in>set (py_slice_to (perm i) k). j < length nz"
    and p2: "w2 < length h1" and p3: "\<forall>i\<in>set rest. i < length (h1 ! w2)"
    and p4: "distinct rest"
    using Cons.prems by (simp_all add: h1w T_def) (simp add: h1_def)
  have s2: "noise_loop h1 w2 nz k perm rest =
      Inr (h1[w2 := map (\<lambda>i. if i \<in> set rest then variant_row nz k perm (h1 ! w2 ! i) i
                                 else h1 ! w2 ! i) [0..<length (h1 ! w2)]])"
    by (rule Cons.IH [OF p1 p2 p3 p4])
  have eq: "map (\<lambda>i. if i \<in> set rest then variant_row nz k perm (h1 ! w2 ! i) i
                                 else h1 ! w2 ! i) [0..<length (h1 ! w2)] =
        map (\<lambda>i'. if i' \<in> set (i # rest) then variant_row nz k perm (T ! i') i'
                                 else T ! i') [0..<length T]"
    using i inr by (auto simp: h1w v_def nth_list_update intro!: nth_equalityI)
  have "noise_loop h w2 nz k perm (i # rest) =
      Inr (h1[w2 := map (\<lambda>i'. if i' \<in> set (i # rest) then variant_row nz k perm (T ! i') i'
                                 else T ! i') [0..<length T]])"
    using s1 s2 eq by (simp add: bind_e_def)
  then show ?case unfolding h1_def T_def by simp
qed

lemma py_round_nonneg: "0 \<le> x \<Longrightarrow> 0 \<le> py_round x"
  by (auto simp: py_round_def Let_def)

lemma py_slice_to_subset: "set (py_slice_to xs k) \<subseteq> set xs"
  by (auto simp: py_slice_to_def dest: in_set_takeD)

lemma concat_replicate_single: "concat (replicate m [x]) = replicate m x"
  by (induction m) simp_all

lemma nonzero_distinct: "distinct (nonzero row)"
  by (simp add: nonzero_def)

lemma get_permuted_tensors_rows:
  assumes w: "w < length h" and row: "h ! w = [row]" and m2: "0 \<le> m2"
    and rng: "\<forall>i<nat m2. \<forall>j\<in>set (py_slice_to (perm i) (py_round (noise_pct * of_int kw))).
                 j < length (nonzero row)"
  shows "get_permuted_tensors h w kw n m2 noise_pct perm =
     Inr (length h, h @ [map (variant_row (nonzero row) (py_round (noise_pct * of_int kw)) perm row)
                          [0..<nat m2]])"
proof -
  define k where "k = py_round (noise_pct * of_int kw)"
  define h1 where "h1 = h @ [replicate (nat m2) row]"
  have a: "\<forall>i\<in>set [0..<nat m2]. \<forall>j\<in>set (py_slice_to (perm i) k). j < length (nonzero row)"
    using rng by (simp add: k_def)
  have b: "length h < length h1" by (simp add: h1_def)
  have c: "\<forall>i\<in>set [0..<nat m2]. i < length (h1 ! length h)" by (simp add: h1_def)
  have d: "distinct [0..<nat m2]" by simp
  have "noise_loop h1 (length h) (nonzero row) k perm [0..<nat m2] =
     Inr (h1[length h := map (\<lambda>i. if i \<in> set [0..<nat m2]
               then variant_row (nonzero row) k perm (h1 ! length h ! i) i
               else h1 ! length h ! i) [0..<length (h1 ! length h)]])"
    by (rule noise_loop_ok [OF a b c d])
  also have "h1[length h := map (\<lambda>i. if i \<in> set [0..<nat m2]
               then variant_row (nonzero row) k perm (h1 ! length h ! i) i
               else h1 ! length h ! i) [0..<length (h1 ! length h)]] =
      h @ [map (variant_row (nonzero row) k perm row) [0..<nat m2]]"
    by (simp add: h1_def)
  finally have loop: "noise_loop h1 (length h) (nonzero row) k perm [0..<nat m2] =
      Inr (h @ [map (variant_row (nonzero row) k perm row) [0..<nat m2]])" .
  show ?thesis
    using m2 row loop
    by (simp add: get_permuted_tensors_def Let_def bind_e_def concat_replicate_single
        h1_def k_def)
qed

lemma zeroed_positions_facts:
  assumes p: "is_permutation K p" and K: "K \<le> length (nonzero row)" and k0: "0 \<le> k"
  shows "zeroed_positions row k p \<subseteq> set (nonzero row)"
    and "card (zeroed_positions row k p) = min (nat k) K"
    and "set (map (\<lambda>j. nonzero row ! j) (py_slice_to p k)) = zeroed_positions row k p"
proof -
  define sl where "sl = py_slice_to p k"
  define nz where "nz = nonzero row"
  have d: "distinct p" and s: "set p = {0..<K}" using p by (simp_all add: is_permutation_def)
  have lp: "length p = K" using d s distinct_card [of p] by simp
  have sl_take: "sl = take (nat k) p" using k0 by (simp add: sl_def py_slice_to_def)
  have sl_len: "length sl = min (nat k) K" using lp by (simp add: sl_take min.commute)
  have sl_d: "distinct sl" using d by (simp add: sl_take)
  have "set sl \<subseteq> set p" unfolding sl_def by (rule py_slice_to_subset)
  then have sl_lt: "\<forall>j\<in>set sl. j < length nz" using s K by (auto simp: nz_def)
  have Z: "zeroed_positions row k p = (\<lambda>t. nz ! t) ` set sl"
    by (simp add: zeroed_positions_def nz_def sl_def)
  have dn: "distinct nz" unfolding nz_def by (rule nonzero_distinct)
  have inj: "inj_on (\<lambda>t. nz ! t) (set sl)"
  proof (rule inj_onI)
    fix a b assume "a \<in> set sl" "b \<in> set sl" "nz ! a = nz ! b"
    then show "a = b" using sl_lt dn nth_eq_iff_index_eq [of nz a b] by blast
  qed
  show "zeroed_positions row k p \<subseteq> set (nonzero row)"
    unfolding Z using sl_lt by (auto simp: nz_def)
  have "card ((\<lambda>t. nz ! t) ` set sl) = card (set sl)" by (rule card_image [OF inj])
  also have "\<dots> = length sl" by (rule distinct_card [OF sl_d])
  finally show "card (zeroed_positions row k p) = min (nat k) K" by (simp add: Z sl_len)
  show "set (map (\<lambda>j. nonzero row ! j) (py_slice_to p k)) = zeroed_positions row k p"
    by (simp add: zeroed_positions_def)
qed

lemma get_permuted_tensors_example:
  "get_permuted_tensors [[row3]] 0 2 3 2 (1/2) perm_rev2 =
     Inr (1, [[row3], [[1/3, 0, 1/6], [1/3, 0, 1/6]]])"
  by (simp add: get_permuted_tensors_def Let_def bind_e_def nonzero_def row3_def upt_rec
      py_round_def py_slice_to_def perm_rev2_def numeral_2_eq_2)

subsection \<open>Claim C7: what a noisy variant is\<close>

text \<open>
  C7.  Let the source tensor hold one row with at least \<open>kw\<close> non-zero positions
  (\<open>kw \<ge> 0\<close>), let the corruption fraction be non-negative (the fractions from 0 to 1
  of the docstring, and those above 1, where the count is clamped at \<open>kw\<close>) and let
  the variant count be \<open>m2 \<ge> 0\<close>.  Then the builder returns a new tensor of \<open>m2\<close>
  rows.  Row \<open>i\<close> has the length of the source row and equals it except at the
  positions \<open>zeroed_positions\<close> of the \<open>i\<close>-th permutation, where it is zero; these
  are non-zero positions of the source, and there are exactly
  \<open>min (round (noise_pct * kw)) kw\<close> of them: the indices come from the front of one
  permutation (so without replacement), and every variant reads a permutation of its
  own.
\<close>

theorem get_permuted_tensors_variants:
  assumes "w < length h" and "h ! w = [row]" and "0 \<le> kw"
    and "nat kw \<le> length (nonzero row)" and "0 \<le> noise_pct" and "0 \<le> m2"
    and "\<forall>i<nat m2. is_permutation (nat kw) (perm i)"
  shows "\<exists>vs. get_permuted_tensors h w kw n m2 noise_pct perm = Inr (length h, h @ [vs]) \<and>
     length vs = nat m2 \<and>
     (\<forall>i<nat m2.
        zeroed_positions row (py_round (noise_pct * of_int kw)) (perm i) \<subseteq> set (nonzero row) \<and>
        card (zeroed_positions row (py_round (noise_pct * of_int kw)) (perm i)) =
          nat (min (py_round (noise_pct * of_int kw)) kw) \<and>
        length (vs ! i) = length row \<and>
        (\<forall>j<length row. vs ! i ! j =
           (if j \<in> zeroed_positions row (py_round (noise_pct * of_int kw)) (perm i) then 0
            else row ! j)))"
proof -
  let ?k = "py_round (noise_pct * of_int kw)"
  let ?nz = "nonzero row"
  define vs where "vs = map (variant_row ?nz ?k perm row) [0..<nat m2]"
  have "0 \<le> real_of_int kw" using assms(3) by simp
  then have "0 \<le> noise_pct * real_of_int kw" using assms(5) by (rule mult_nonneg_nonneg [rotated])
  then have k0: "0 \<le> ?k" by (rule py_round_nonneg)
  have rng: "\<forall>i<nat m2. \<forall>j\<in>set (py_slice_to (perm i) ?k). j < length ?nz"
  proof (intro allI impI ballI)
    fix i j assume i: "i < nat m2" and j: "j \<in> set (py_slice_to (perm i) ?k)"
    have "j \<in> set (perm i)" by (rule subsetD [OF py_slice_to_subset j])
    moreover have "set (perm i) = {0..<nat kw}" using assms(7) i by (simp add: is_permutation_def)
    ultimately have "j < nat kw" by simp
    then show "j < length ?nz" using assms(4) by simp
  qed
  have ret: "get_permuted_tensors h w kw n m2 noise_pct perm = Inr (length h, h @ [vs])"
    unfolding vs_def by (rule get_permuted_tensors_rows [OF assms(1) assms(2) assms(6) rng])
  have len: "length vs = nat m2" by (simp add: vs_def)
  have rows: "\<forall>i<nat m2.
        zeroed_positions row ?k (perm i) \<subseteq> set ?nz \<and>
        card (zeroed_positions row ?k (perm i)) = nat (min ?k kw) \<and>
        length (vs ! i) = length row \<and>
        (\<forall>j<length row. vs ! i ! j =
           (if j \<in> zeroed_positions row ?k (perm i) then 0 else row ! j))"
  proof (intro allI impI)
    fix i assume i: "i < nat m2"
    have p: "is_permutation (nat kw) (perm i)" using assms(7) i by simp
    note zf = zeroed_positions_facts [OF p assms(4) k0]
    have mn: "min (nat ?k) (nat kw) = nat (min ?k kw)" using k0 assms(3) by simp
    have vi: "vs ! i = zero_at (map (\<lambda>j. ?nz ! j) (py_slice_to (perm i) ?k)) row"
      using i by (simp add: vs_def variant_row_def)
    have c3: "length (vs ! i) = length row" unfolding vi by simp
    have c4: "\<forall>j<length row. vs ! i ! j =
           (if j \<in> zeroed_positions row ?k (perm i) then 0 else row ! j)"
      unfolding vi using zf(3) by (simp add: zero_at_nth)
    from zf(1) zf(2) mn c3 c4
    show "zeroed_positions row ?k (perm i) \<subseteq> set ?nz \<and>
        card (zeroed_positions row ?k (perm i)) = nat (min ?k kw) \<and>
        length (vs ! i) = length row \<and>
        (\<forall>j<length row. vs ! i ! j =
           (if j \<in> zeroed_positions row ?k (perm i) then 0 else row ! j))"
      by simp
  qed
  from ret len rows show ?thesis by (intro exI [of _ vs] conjI)
qed

theorem get_permuted_tensors_variants_witness:
  "\<exists>vs. get_permuted_tensors [[row3]] 0 2 3 2 (1/2) perm_rev2 = Inr (1, [[row3]] @ [vs]) \<and>
     length vs = 2 \<and> card (zeroed_positions row3 (py_round (1/2 * 2)) (perm_rev2 0)) = 1"
proof -
  have nz: "nonzero row3 = [0, 1, 2]" by (simp add: nonzero_def row3_def upt_rec)
  have h1: "0 < length [[row3]]" and h2: "[[row3]] ! 0 = [row3]" and h3: "(0::int) \<le> 2"
    and h4: "nat 2 \<le> length (nonzero row3)" and h5: "(0::real) \<le> 1/2" and h6: "(0::int) \<le> 2"
    by (simp_all add: nz)
  have h7: "\<forall>i<nat 2. is_permutation (nat 2) (perm_rev2 i)"
    by (auto simp: is_permutation_def perm_rev2_def)
  have r: "py_round (1/2 * real_of_int 2) = 1" by (simp add: py_round_def Let_def)
  from get_permuted_tensors_variants [OF h1 h2 h3 h4 h5 h6 h7, of 3]
  obtain vs where
    a: "get_permuted_tensors [[row3]] 0 2 3 2 (1/2) perm_rev2 = Inr (length [[row3]], [[row3]] @ [vs])"
    and b: "length vs = nat 2"
    and c: "\<forall>i<nat 2. zeroed_positions row3 (py_round (1/2 * real_of_int 2)) (perm_rev2 i) \<subseteq> set (nonzero row3) \<and>
        card (zeroed_positions row3 (py_round (1/2 * real_of_int 2)) (perm_rev2 i)) =
          nat (min (py_round (1/2 * real_of_int 2)) 2) \<and>
        length (vs ! i) = length row3 \<and>
        (\<forall>j<length row3. vs ! i ! j =
           (if j \<in> zeroed_positions row3 (py_round (1/2 * real_of_int 2)) (perm_rev2 i) then 0
            else row3 ! j))"
    by blast
  from c have "card (zeroed_positions row3 (py_round (1/2 * real_of_int 2)) (perm_rev2 0)) =
          nat (min (py_round (1/2 * real_of_int 2)) 2)" by simp
  then have "card (zeroed_positions row3 (py_round (1/2 * 2)) (perm_rev2 0)) = 1"
    using r by simp
  with a b show ?thesis by auto
qed

subsection \<open>Claim C8: the source tensor is not written\<close>

text \<open>
  C8.  Whenever the builder returns, the tensor behind the reference \<open>w\<close> is what it was
  before the call, as is every other tensor that existed then; the reference returned is
  that of the tensor allocated by \<^verbatim>\<open>repeat\<close>, which is the only one written.
\<close>

theorem get_permuted_tensors_source_unchanged:
  assumes "get_permuted_tensors h w kw n m2 noise_pct perm = Inr (w2, h')" and "w < length h"
  shows "h' ! w = h ! w \<and> w2 = length h \<and> length h' = Suc (length h) \<and>
         (\<forall>r<length h. h' ! r = h ! r)"
proof -
  define h1 where "h1 = h @ [concat (replicate (nat m2) (h ! w))]"
  from assms(1) have w2: "w2 = length h"
    and loop: "noise_loop h1 (length h) (nonzero (h ! w ! 0))
                 (py_round (noise_pct * of_int kw)) perm [0..<nat m2] = Inr h'"
    by (auto simp: get_permuted_tensors_def Let_def bind_e_def h1_def
        split: if_splits sum.splits)
  from noise_loop_frame [OF loop] have
    len: "length h' = length h1" and fr: "\<forall>r. r \<noteq> length h \<longrightarrow> h' ! r = h1 ! r" by simp_all
  have "h' ! r = h ! r" if "r < length h" for r
    using fr that by (simp add: h1_def nth_append)
  then show ?thesis using w2 len assms(2) by (simp add: h1_def)
qed

theorem get_permuted_tensors_source_unchanged_witness:
  "get_permuted_tensors [[row3]] 0 2 3 2 (1/2) perm_rev2 =
     Inr (1, [[row3], [[1/3, 0, 1/6], [1/3, 0, 1/6]]]) \<and>
   [[row3], [[1/3, 0, 1/6], [1/3, 0, 1/6]]] ! 0 = [[row3]] ! 0"
proof -
  have run: "get_permuted_tensors [[row3]] 0 2 3 2 (1/2) perm_rev2 =
     Inr (1, [[row3], [[1/3, 0, 1/6], [1/3, 0, 1/6]]])"
    by (rule get_permuted_tensors_example)
  have w: "0 < length [[row3]]" by simp
  from get_permuted_tensors_source_unchanged [OF run w] run show ?thesis by simp
qed

subsection \<open>Claim C10: indexing past the non-zero positions\<close>

text \<open>
  C10.  The indices of a variant come from a permutation of \<open>range(kw)\<close> and index the
  list of non-zero positions of the source row.  Whenever that list is shorter than
  \<open>kw\<close>, the number of entries to zero is positive and at least one variant is built,
  there are outcomes of the permutations for which the builder raises \<^verbatim>\<open>IndexError\<close>.
\<close>

theorem get_permuted_tensors_index_fault:
  assumes "h ! w \<noteq> []" and "length (nonzero (h ! w ! 0)) < nat kw"
    and "0 < py_round (noise_pct * of_int kw)" and "0 < m2"
  shows "\<exists>perm. (\<forall>i. is_permutation (nat kw) (perm i)) \<and>
           get_permuted_tensors h w kw n m2 noise_pct perm = Inl IndexError"
proof -
  define perm :: "nat \<Rightarrow> nat list" where "perm = (\<lambda>i. rev [0..<nat kw])"
  define k where "k = py_round (noise_pct * of_int kw)"
  have K: "0 < nat kw" using assms(2) by simp
  have wf: "\<forall>i. is_permutation (nat kw) (perm i)" by (simp add: is_permutation_def perm_def)
  have "rev [0..<nat kw] = (nat kw - 1) # rev [0..<nat kw - 1]"
    using K by (cases "nat kw") simp_all
  then have "nat kw - 1 \<in> set (take (nat k) (rev [0..<nat kw]))"
    using assms(3) by (cases "nat k") (simp_all add: k_def)
  then have mem: "nat kw - 1 \<in> set (py_slice_to (perm 0) k)"
    using assms(3) by (simp add: py_slice_to_def perm_def k_def)
  have big: "length (nonzero (h ! w ! 0)) \<le> nat kw - 1" using assms(2) by simp
  have "\<exists>i\<in>set [0..<nat m2]. \<exists>j\<in>set (py_slice_to (perm i) k). length (nonzero (h ! w ! 0)) \<le> j"
    using mem big assms(4) by (intro bexI [of _ 0] bexI [of _ "nat kw - 1"]) simp_all
  from noise_loop_fault [OF this]
  have "get_permuted_tensors h w kw n m2 noise_pct perm = Inl IndexError"
    using assms(1,4) by (simp add: get_permuted_tensors_def Let_def bind_e_def k_def)
  with wf show ?thesis by blast
qed

theorem get_permuted_tensors_index_fault_witness:
  "\<exists>perm. (\<forall>i. is_permutation (nat 3) (perm i)) \<and>
     get_permuted_tensors [[row2]] 0 3 2 1 (1/2) perm = Inl IndexError"
proof -
  have nz: "nonzero row2 = [0, 1]" by (simp add: nonzero_def row2_def upt_rec)
  have h1: "[[row2]] ! 0 \<noteq> []" by simp
  have h2: "length (nonzero ([[row2]] ! 0 ! 0)) < nat 3" by (simp add: nz)
  have h3: "0 < py_round (1/2 * real_of_int 3)" by (simp add: py_round_def Let_def)
  have h4: "(0::int) < 1" by simp
  from get_permuted_tensors_index_fault [OF h1 h2 h3 h4, of 2] show ?thesis .
qed

section \<open>Threshold estimator and single trials\<close>

lemma get_sparse_tensor_dense:
  assumes "0 \<le> n" "0 \<le> m" "n \<le> k" "0 \<le> fixed_range"
  shows "get_sparse_tensor k n m only_positive fixed_range g =
     Inr (map (fill_row only_positive fixed_range g (nat n)) [0..<nat m])"
  using assms
  by (auto simp: get_sparse_tensor_def bind_e_def uniform_fill_def fill_row_def)

lemma get_theta_returns:
  assumes "1 \<le> k" "1 \<le> n_trials"
  shows "get_theta k n_trials g =
     Inr (mean (map (\<lambda>row. dot row row)
                  (map (fill_row False (1 / of_int k) g (nat k)) [0..<nat n_trials])) / 2,
          map (\<lambda>row. dot row row)
            (map (fill_row False (1 / of_int k) g (nat k)) [0..<nat n_trials]))"
proof -
  have "get_sparse_tensor k k n_trials False (1 / of_int k) g =
     Inr (map (fill_row False (1 / of_int k) g (nat k)) [0..<nat n_trials])"
    using assms by (intro get_sparse_tensor_dense) simp_all
  moreover have "[0..<nat n_trials] \<noteq> []" using assms(2) by simp
  ultimately show ?thesis using assms by (simp add: get_theta_def bind_e_def Let_def)
qed

subsection \<open>Claim C4: the threshold is half the mean self dot-product\<close>

text \<open>
  C4, as amended.  For sparsity \<open>k \<ge> 1\<close> and trial count \<open>n_trials \<ge> 1\<close> the estimator
  generates \<open>n_trials\<close> rows of dimensionality \<open>k\<close> with range \<open>1/k\<close>, none of whose
  entries is zeroed (row \<open>i\<close> is the filled row \<open>i\<close>), and returns the pair of half
  the mean of the rows' self dot-products and the list of these \<open>n_trials\<close> products.
\<close>

theorem get_theta_mean_half:
  assumes "1 \<le> k" and "1 \<le> n_trials"
  shows "\<exists>w1. get_sparse_tensor k k n_trials False (1 / of_int k) g = Inr w1 \<and>
     length w1 = nat n_trials \<and>
     (\<forall>i<nat n_trials. w1 ! i = fill_row False (1 / of_int k) g (nat k) i \<and>
                        length (w1 ! i) = nat k) \<and>
     get_theta k n_trials g =
       Inr (mean (map (\<lambda>row. dot row row) w1) / 2, map (\<lambda>row. dot row row) w1) \<and>
     length (map (\<lambda>row. dot row row) w1) = nat n_trials"
proof -
  let ?w = "map (fill_row False (1 / of_int k) g (nat k)) [0..<nat n_trials]"
  have a: "get_sparse_tensor k k n_trials False (1 / of_int k) g = Inr ?w"
    using assms by (intro get_sparse_tensor_dense) simp_all
  have b: "get_theta k n_trials g =
       Inr (mean (map (\<lambda>row. dot row row) ?w) / 2, map (\<lambda>row. dot row row) ?w)"
    by (rule get_theta_returns [OF assms])
  have c: "\<forall>i<nat n_trials. ?w ! i = fill_row False (1 / of_int k) g (nat k) i \<and>
                        length (?w ! i) = nat k"
    by simp
  have d: "length ?w = nat n_trials" "length (map (\<lambda>row. dot row row) ?w) = nat n_trials"
    by simp_all
  from a b c d show ?thesis by (intro exI [of _ ?w] conjI)
qed

theorem get_theta_mean_half_witness:
  "\<exists>w1. get_sparse_tensor 24 24 100000 False (1 / of_int 24) (rng_id 24 (1/4)) = Inr w1 \<and>
     length w1 = nat 100000 \<and>
     get_theta 24 100000 (rng_id 24 (1/4)) =
       Inr (mean (map (\<lambda>row. dot row row) w1) / 2, map (\<lambda>row. dot row row) w1)"
proof -
  have h1: "(1::int) \<le> 24" and h2: "(1::int) \<le> 100000" by simp_all
  from get_theta_mean_half [OF h1 h2, of "rng_id 24 (1/4)"] show ?thesis by blast
qed

text \<open>
  C4 as stated fails for the trial count \<open>0\<close>: the list of dot products is empty and
  the diagnostic \<^verbatim>\<open>the_dots.min()\<close> raises \<^verbatim>\<open>ValueError\<close>, so no pair is returned.
\<close>

theorem get_theta_no_trials_counterexample:
  "get_theta 24 0 (rng_id 24 (1/4)) = Inl ValueError"
  by (simp add: get_theta_def get_sparse_tensor_def bind_e_def uniform_fill_def)

lemma set_zero_at: "set (zero_at idx row) \<subseteq> insert 0 (set row)"
  unfolding zero_at_def
proof (induction idx arbitrary: row)
  case Nil
  then show ?case by auto
next
  case (Cons j idx)
  have "set (fold (\<lambda>j r. r[j := 0]) idx (row[j := 0])) \<subseteq> insert 0 (set (row[j := 0]))"
    by (rule Cons.IH)
  moreover have "set (row[j := 0]) \<subseteq> insert 0 (set row)"
    by (rule set_update_subset_insert)
  ultimately show ?case by auto
qed

lemma uniform_value_bounds:
  assumes "lo \<le> hi" "0 \<le> x" "x \<le> 1"
  shows "lo \<le> uniform_value lo hi x" "uniform_value lo hi x \<le> hi"
proof -
  have d: "0 \<le> hi - lo" using assms(1) by simp
  have "0 \<le> x * (hi - lo)" using assms(2) d by (rule mult_nonneg_nonneg)
  then show "lo \<le> uniform_value lo hi x" by (simp add: uniform_value_def)
  have "x * (hi - lo) \<le> 1 * (hi - lo)" using assms(3) d by (rule mult_right_mono)
  then show "uniform_value lo hi x \<le> hi" by (simp add: uniform_value_def)
qed

lemma fill_row_bounds:
  assumes "0 \<le> r" "\<forall>i j. 0 \<le> unit_draw g i j \<and> unit_draw g i j \<le> 1"
    and "x \<in> set (fill_row only_positive r g n i)"
  shows "(if only_positive then 0 else - r) \<le> x \<and> x \<le> r"
proof -
  from assms(3) obtain j where
    x: "x = uniform_value (if only_positive then 0 else - r) r (unit_draw g i j)"
    by (auto simp: fill_row_def)
  have lo: "(if only_positive then 0 else - r) \<le> r" using assms(1) by simp
  from uniform_value_bounds [OF lo] assms(2) show ?thesis unfolding x by blast
qed

lemma get_sparse_tensor_bounds:
  assumes "0 \<le> k" "0 \<le> n" "1 \<le> m" "0 \<le> r"
    and "\<forall>i j. 0 \<le> unit_draw g i j \<and> unit_draw g i j \<le> 1"
    and "get_sparse_tensor k n m only_positive r g = Inr W"
    and "row \<in> set W" "x \<in> set row"
  shows "(if only_positive then 0 else - r) \<le> x \<and> x \<le> r"
proof -
  from get_sparse_tensor_rows [OF assms(1-4), of only_positive g] assms(6,7)
  obtain i where
    "row = zero_at (take (nat (n - k)) (row_perm g i)) (fill_row only_positive r g (nat n) i)
     \<or> row = fill_row only_positive r g (nat n) i"
    by (auto split: if_splits)
  then have "x = 0 \<or> x \<in> set (fill_row only_positive r g (nat n) i)"
    using assms(8) set_zero_at by blast
  then show ?thesis
  proof
    assume "x = 0" then show ?thesis using assms(4) by simp
  next
    assume "x \<in> set (fill_row only_positive r g (nat n) i)"
    from fill_row_bounds [OF assms(4) assms(5) this] show ?thesis .
  qed
qed

lemma get_sparse_tensor_length:
  assumes "0 \<le> k" "0 \<le> n" "1 \<le> m" "0 \<le> r"
  shows "\<exists>W. get_sparse_tensor k n m only_positive r g = Inr W \<and> length W = nat m"
  using get_sparse_tensor_rows [OF assms, of only_positive g] by simp

lemma length_concat_matmul_t: "length (concat (matmul_t a b)) = length a * length b"
  unfolding matmul_t_def by (induction a) simp_all

lemma count_ge_bounds: "0 \<le> count_ge d theta" "count_ge d theta \<le> int (length (concat d))"
  by (simp_all add: count_ge_def)

lemma return_matches_returns:
  assumes "kw \<noteq> 0"
    and "get_sparse_tensor kw n 4 False (1 / of_int kw) gw = Inr W"
    and "get_sparse_tensor kv n 1000 True (2 * s / of_int kw) gv = Inr V"
  shows "return_matches kw kv n theta s gw gv =
     Inr (of_int (count_ge (matmul_t V W) theta) / 4000, count_ge (matmul_t V W) theta, 4000)"
  using assms by (simp add: return_matches_def Let_def bind_e_def)

subsection \<open>Claim C5: one match-probability trial\<close>

text \<open>
  C5.  For \<open>kw \<ge> 1\<close>, a sparsity \<open>kv \<ge> 0\<close>, a dimensionality \<open>n \<ge> 0\<close>, a scale
  factor \<open>input_scaling \<ge> 0\<close> and unit draws in the unit interval, one trial generates exactly 4 weight rows with entries in
  \<open>[-1/kw, 1/kw]\<close> and exactly 1000 input rows with entries in
  \<open>[0, 2 * input_scaling / kw]\<close>, counts the entries \<open>\<ge> theta\<close> of the matrix of the dot
  products of every input row with every weight row, and returns
  \<open>(count / 4000, count, 4000)\<close>, with \<open>0 \<le> count \<le> 4000\<close> and the fraction in \<open>[0, 1]\<close>.
\<close>

theorem return_matches_counts:
  assumes "1 \<le> kw" and "0 \<le> kv" and "0 \<le> n" and "0 \<le> input_scaling"
    and "\<forall>i j. 0 \<le> unit_draw gw i j \<and> unit_draw gw i j \<le> 1"
    and "\<forall>i j. 0 \<le> unit_draw gv i j \<and> unit_draw gv i j \<le> 1"
  shows "\<exists>W V c.
     get_sparse_tensor kw n 4 False (1 / of_int kw) gw = Inr W \<and> length W = 4 \<and>
     (\<forall>row\<in>set W. \<forall>x\<in>set row. - (1 / of_int kw) \<le> x \<and> x \<le> 1 / of_int kw) \<and>
     get_sparse_tensor kv n 1000 True (2 * input_scaling / of_int kw) gv = Inr V \<and>
     length V = 1000 \<and>
     (\<forall>row\<in>set V. \<forall>x\<in>set row. 0 \<le> x \<and> x \<le> 2 * input_scaling / of_int kw) \<and>
     c = count_ge (matmul_t V W) theta \<and>
     return_matches kw kv n theta input_scaling gw gv = Inr (of_int c / 4000, c, 4000) \<and>
     0 \<le> c \<and> c \<le> 4000 \<and> 0 \<le> (of_int c / 4000 :: real) \<and> (of_int c / 4000 :: real) \<le> 1"
proof -
  have kw0: "0 \<le> kw" "kw \<noteq> 0" using assms(1) by simp_all
  have rw: "(0::real) \<le> 1 / of_int kw" using assms(1) by simp
  have "(0::real) \<le> 2 * input_scaling" using assms(4) by simp
  moreover have "(0::real) \<le> of_int kw" using assms(1) by simp
  ultimately have rv: "0 \<le> 2 * input_scaling / of_int kw" by (rule divide_nonneg_nonneg)
  have m4: "(1::int) \<le> 4" and m1000: "(1::int) \<le> 1000" by simp_all
  from get_sparse_tensor_length [OF kw0(1) assms(3) m4 rw, of False gw]
  obtain W where W: "get_sparse_tensor kw n 4 False (1 / of_int kw) gw = Inr W"
    and lW: "length W = 4" by auto
  from get_sparse_tensor_length [OF assms(2) assms(3) m1000 rv, of True gv]
  obtain V where V: "get_sparse_tensor kv n 1000 True (2 * input_scaling / of_int kw) gv = Inr V"
    and lV: "length V = 1000" by auto
  define c where "c = count_ge (matmul_t V W) theta"
  have bW: "\<forall>row\<in>set W. \<forall>x\<in>set row. - (1 / of_int kw) \<le> x \<and> x \<le> 1 / of_int kw"
    using get_sparse_tensor_bounds [OF kw0(1) assms(3) m4 rw assms(5) W] by simp
  have bV: "\<forall>row\<in>set V. \<forall>x\<in>set row. 0 \<le> x \<and> x \<le> 2 * input_scaling / of_int kw"
    using get_sparse_tensor_bounds [OF assms(2) assms(3) m1000 rv assms(6) V] by simp
  have ret: "return_matches kw kv n theta input_scaling gw gv = Inr (of_int c / 4000, c, 4000)"
    unfolding c_def by (rule return_matches_returns [OF kw0(2) W V])
  have c0: "0 \<le> c" unfolding c_def by (rule count_ge_bounds)
  have "c \<le> int (length (concat (matmul_t V W)))" unfolding c_def by (rule count_ge_bounds)
  then have c1: "c \<le> 4000" by (simp add: length_concat_matmul_t lV lW)
  have f0: "0 \<le> (of_int c / 4000 :: real)" using c0 by simp
  have f1: "(of_int c / 4000 :: real) \<le> 1" using c1 by simp
  have cc: "c = count_ge (matmul_t V W) theta" by (simp add: c_def)
  from W lW bW V lV bV cc ret c0 c1 f0 f1 show ?thesis
    by (intro exI [of _ W] exI [of _ V] exI [of _ c] conjI)
qed

theorem return_matches_counts_witness:
  "\<exists>c. return_matches 24 24 500 (1/1000) 1 (rng_id 500 (1/4)) (rng_id 500 (1/4)) =
          Inr (of_int c / 4000, c, 4000) \<and> 0 \<le> c \<and> c \<le> 4000"
proof -
  have h1: "(1::int) \<le> 24" and h2: "(0::int) \<le> 24" and h3: "(0::int) \<le> 500"
    and h4: "(0::real) \<le> 1" by simp_all
  have h5: "\<forall>i j. 0 \<le> unit_draw (rng_id 500 (1/4)) i j \<and> unit_draw (rng_id 500 (1/4)) i j \<le> 1"
    by (simp add: rng_id_def)
  from return_matches_counts [OF h1 h2 h3 h4 h5 h5, of "1/1000"] show ?thesis by blast
qed

lemma get_sparse_tensor_single:
  assumes "1 \<le> kw" "kw \<le> n" "is_permutation (nat n) (row_perm gw 0)"
    and "\<forall>j<nat n. fill_row False r gw (nat n) 0 ! j \<noteq> 0" and "0 \<le> r"
  shows "\<exists>w. get_sparse_tensor kw n 1 False r gw = Inr [w] \<and> length (nonzero w) = nat kw"
proof -
  let ?f = "fill_row False r gw (nat n) 0"
  let ?w = "if kw < n then zero_at (take (nat (n - kw)) (row_perm gw 0)) ?f else ?f"
  have k0: "0 \<le> kw" and n0: "0 \<le> n" and m: "(1::int) \<le> 1" using assms(1,2) by simp_all
  have "get_sparse_tensor kw n 1 False r gw = Inr [?w]"
    using get_sparse_tensor_rows [OF k0 n0 m assms(5), of False gw] by simp
  moreover have "length (nonzero ?w) = nat kw"
  proof (cases "kw < n")
    case True
    have z: "nat (n - kw) \<le> nat n" using k0 by simp
    have fl: "length ?f = nat n" by simp
    from sparse_row_facts(2) [OF assms(3) z fl] assms(4)
    have "length (nonzero (zero_at (take (nat (n - kw)) (row_perm gw 0)) ?f)) = nat n - nat (n - kw)"
      by blast
    moreover have "nat n - nat (n - kw) = nat kw" using True k0 by simp
    ultimately show ?thesis using True by simp
  next
    case False
    then have "kw = n" using assms(2) by simp
    moreover have "length (nonzero ?f) = length ?f" using assms(4) by (intro nonzero_all) simp
    ultimately show ?thesis by simp
  qed
  ultimately show ?thesis by blast
qed

lemma return_false_negatives_returns:
  assumes "kw \<noteq> 0"
    and "get_sparse_tensor kw n 1 False (1 / of_int kw) gw = Inr w"
    and "get_permuted_tensors [w] 0 kw n 10 noise_pct perm = Inr (w2, h)"
  shows "return_false_negatives kw noise_pct n theta gw perm =
     Inr (of_int (count_ge (matmul_t (h ! w2) (h ! 0)) theta) / 10,
          count_ge (matmul_t (h ! w2) (h ! 0)) theta, 10)"
  using assms by (simp add: return_false_negatives_def Let_def bind_e_def)

lemma false_negative_variants:
  assumes "1 \<le> kw" and "kw \<le> n" and "is_permutation (nat n) (row_perm gw 0)"
    and "\<forall>j<nat n. fill_row False (1 / of_int kw) gw (nat n) 0 ! j \<noteq> 0"
    and "\<forall>i<nat 10. is_permutation (nat kw) (perm i)"
  shows "\<exists>w vs.
     get_sparse_tensor kw n 1 False (1 / of_int kw) gw = Inr [w] \<and>
     length (nonzero w) = nat kw \<and>
     get_permuted_tensors [[w]] 0 kw n 10 noise_pct perm = Inr (1, [[w], vs]) \<and>
     length vs = 10"
proof -
  have r: "(0::real) \<le> 1 / of_int kw" using assms(1) by simp
  from get_sparse_tensor_single [OF assms(1-4) r]
  obtain w where w: "get_sparse_tensor kw n 1 False (1 / of_int kw) gw = Inr [w]"
    and nz: "length (nonzero w) = nat kw" by blast
  let ?k = "py_round (noise_pct * of_int kw)"
  define vs where "vs = map (variant_row (nonzero w) ?k perm w) [0..<nat 10]"
  have rng: "\<forall>i<nat 10. \<forall>j\<in>set (py_slice_to (perm i) ?k). j < length (nonzero w)"
  proof (intro allI impI ballI)
    fix i j assume i: "i < nat 10" and j: "j \<in> set (py_slice_to (perm i) ?k)"
    have "j \<in> set (perm i)" by (rule subsetD [OF py_slice_to_subset j])
    moreover have "set (perm i) = {0..<nat kw}" using assms(5) i by (simp add: is_permutation_def)
    ultimately have "j < nat kw" by simp
    then show "j < length (nonzero w)" using nz by simp
  qed
  have a1: "0 < length [[w]]" and a2: "[[w]] ! 0 = [w]" and a3: "(0::int) \<le> 10" by simp_all
  have pt: "get_permuted_tensors [[w]] 0 kw n 10 noise_pct perm = Inr (1, [[w], vs])"
    using get_permuted_tensors_rows [OF a1 a2 a3 rng, of n] by (simp add: vs_def)
  have lv: "length vs = 10" by (simp add: vs_def)
  from w nz pt lv show ?thesis by (intro exI [of _ w] exI [of _ vs] conjI)
qed

subsection \<open>Claim C6: one false-negative trial\<close>

text \<open>
  C6, as amended.  For \<open>1 \<le> kw \<le> n\<close>, when none of the drawn values of the weight row
  is zero (and the permutations are permutations), one trial generates one weight row
  with exactly \<open>kw\<close> non-zero entries and range \<open>1/kw\<close>, builds exactly 10 variants of
  it with the noisy-variant builder, counts the dot products of a variant with the
  row that are \<open>\<ge> theta\<close>, and returns \<open>(count / 10, count, 10)\<close> with
  \<open>0 \<le> count \<le> 10\<close>; this for every \<open>noise_pct\<close> and \<open>theta\<close>.
\<close>

theorem return_false_negatives_counts:
  assumes "1 \<le> kw" and "kw \<le> n" and "is_permutation (nat n) (row_perm gw 0)"
    and "\<forall>j<nat n. fill_row False (1 / of_int kw) gw (nat n) 0 ! j \<noteq> 0"
    and "\<forall>i<nat 10. is_permutation (nat kw) (perm i)"
  shows "\<exists>w vs c.
     get_sparse_tensor kw n 1 False (1 / of_int kw) gw = Inr [w] \<and>
     length (nonzero w) = nat kw \<and>
     get_permuted_tensors [[w]] 0 kw n 10 noise_pct perm = Inr (1, [[w], vs]) \<and>
     length vs = 10 \<and>
     c = count_ge (matmul_t vs [w]) theta \<and>
     return_false_negatives kw noise_pct n theta gw perm = Inr (of_int c / 10, c, 10) \<and>
     0 \<le> c \<and> c \<le> 10"
proof -
  have kw0: "kw \<noteq> 0" using assms(1) by simp
  from false_negative_variants [OF assms, of noise_pct]
  obtain w vs where w: "get_sparse_tensor kw n 1 False (1 / of_int kw) gw = Inr [w]"
    and nz: "length (nonzero w) = nat kw"
    and pt: "get_permuted_tensors [[w]] 0 kw n 10 noise_pct perm = Inr (1, [[w], vs])"
    and lv: "length vs = 10"
    by blast
  define c where "c = count_ge (matmul_t vs [w]) theta"
  have ret: "return_false_negatives kw noise_pct n theta gw perm = Inr (of_int c / 10, c, 10)"
    using return_false_negatives_returns [OF kw0 w pt, of theta] by (simp add: c_def)
  have c0: "0 \<le> c" unfolding c_def by (rule count_ge_bounds)
  have "c \<le> int (length (concat (matmul_t vs [w])))" unfolding c_def by (rule count_ge_bounds)
  then have c1: "c \<le> 10" by (simp add: length_concat_matmul_t lv)
  have cc: "c = count_ge (matmul_t vs [w]) theta" by (simp add: c_def)
  from w nz pt lv cc ret c0 c1 show ?thesis
    by (intro exI [of _ w] exI [of _ vs] exI [of _ c] conjI)
qed

theorem return_false_negatives_counts_witness:
  "\<exists>c. return_false_negatives 2 (1/2) 2 (1/100) (rng_id 2 (1/4)) perm_rev2 =
          Inr (of_int c / 10, c, 10) \<and> 0 \<le> c \<and> c \<le> 10"
proof -
  have h1: "(1::int) \<le> 2" and h2: "(2::int) \<le> 2" by simp_all
  have h3: "is_permutation (nat 2) (row_perm (rng_id 2 (1/4)) 0)"
    by (auto simp: is_permutation_def rng_id_def)
  have h4: "\<forall>j<nat 2. fill_row False (1 / of_int 2) (rng_id 2 (1/4)) (nat 2) 0 ! j \<noteq> 0"
    by (simp add: fill_row_def rng_id_def uniform_value_def)
  have h5: "\<forall>i<nat 10. is_permutation (nat 2) (perm_rev2 i)"
    by (auto simp: is_permutation_def perm_rev2_def)
  from return_false_negatives_counts [OF h1 h2 h3 h4 h5, of "1/2" "1/100"]
  show ?thesis by auto
qed

text \<open>
  C6 as stated fails where the weight row has fewer than \<open>kw\<close> non-zero entries: for
  \<open>kw = 3\<close>, \<open>n = 2\<close> and \<open>noise_pct = 1/2\<close> the row is dense with two non-zero
  positions, two indices of a permutation of \<open>range(3)\<close> are used, and with the
  permutation \<open>[2, 1, 0]\<close> the first of them is past the end of the list:
  \<^verbatim>\<open>IndexError\<close>.
\<close>

theorem return_false_negatives_dense_row_counterexample:
  "return_false_negatives 3 (1/2) 2 (1/100) (rng_id 2 (1/4)) perm_rev3 = Inl IndexError"
  by (simp add: return_false_negatives_def Let_def bind_e_def get_sparse_tensor_def
      uniform_fill_def uniform_value_def rng_id_def get_permuted_tensors_def nonzero_def
      upt_rec py_round_def py_slice_to_def perm_rev3_def)

section \<open>Lemmas on the aggregators\<close>

lemma run_trials_sum:
  assumes "\<forall>t\<in>set ts. trial t = Inr (pct t, num t, tot t)"
  shows "run_trials trial ts a b =
         Inr (a + sum_list (map num ts), b + sum_list (map tot ts))"
  using assms
proof (induction ts arbitrary: a b)
  case Nil
  then show ?case by simp
next
  case (Cons t ts)
  have "run_trials trial ts (a + num t) (b + tot t) =
        Inr (a + num t + sum_list (map num ts), b + tot t + sum_list (map tot ts))"
    using Cons.prems by (intro Cons.IH) simp
  then show ?case using Cons.prems by (simp add: bind_e_def add.assoc)
qed

lemma return_false_negatives_total:
  "return_false_negatives kw noise_pct n theta gw perm = Inr (pct, num, tot) \<Longrightarrow> tot = 10"
  by (auto simp: return_false_negatives_def Let_def bind_e_def split: if_splits sum.splits)

lemma sum_list_const_pos:
  assumes "\<forall>t\<in>set ts. f t = (c::int)" "ts \<noteq> []" "0 < c"
  shows "0 < sum_list (map f ts)"
proof -
  have "map f ts = replicate (length ts) c"
    using assms(1) by (intro nth_equalityI) simp_all
  then have "sum_list (map f ts) = int (length ts) * c" by (simp add: sum_list_replicate)
  moreover have "0 < int (length ts)" using assms(2) by simp
  ultimately show ?thesis using assms(3) by simp
qed

lemma compute_false_negatives_pooled:
  assumes "get_int args ''n'' = Inr n" "get_int args ''kw'' = Inr kw"
    and "get_float args ''noise_pct'' = Inr noise_pct"
    and "get_int args ''n_trials'' = Inr n_trials"
    and "get_theta kw 100000 gtheta = Inr (theta, the_dots)"
    and "1 \<le> n_trials"
    and "\<forall>t<nat n_trials.
           return_false_negatives kw noise_pct n theta (fst (rng t)) (snd (rng t)) =
             Inr (pct t, num t, tot t)"
  shows "compute_false_negatives args gtheta rng =
     Inr (args(''pctFalse'' \<mapsto>
            PyFloat (1 - of_int (sum_list (map num [0..<nat n_trials])) /
                         of_int (sum_list (map tot [0..<nat n_trials])))))"
proof -
  let ?trial = "\<lambda>t. return_false_negatives kw noise_pct n theta (fst (rng t)) (snd (rng t))"
  have tr: "\<forall>t\<in>set [0..<nat n_trials]. ?trial t = Inr (pct t, num t, tot t)"
    using assms(7) by simp
  have loop: "run_trials ?trial [0..<nat n_trials] 0 0 =
      Inr (0 + sum_list (map num [0..<nat n_trials]), 0 + sum_list (map tot [0..<nat n_trials]))"
    by (rule run_trials_sum [OF tr])
  have "\<forall>t\<in>set [0..<nat n_trials]. tot t = 10"
    using assms(7) return_false_negatives_total by fastforce
  moreover have "[0..<nat n_trials] \<noteq> []" using assms(6) by simp
  ultimately have "0 < sum_list (map tot [0..<nat n_trials])"
    by (intro sum_list_const_pos [where c = 10]) simp_all
  then have nz: "sum_list (map tot [0..<nat n_trials]) \<noteq> 0" by simp
  show ?thesis
    unfolding compute_false_negatives_def compute_false_negatives_with_def fn_trial_def
    using assms(1-5) loop nz by (simp add: bind_e_def Let_def py_truediv_def)
qed

lemma get_theta_returns_some:
  assumes "1 \<le> k" "1 \<le> n_trials"
  shows "\<exists>theta dots. get_theta k n_trials g = Inr (theta, dots)"
  using get_theta_returns [OF assms, of g] by blast

lemma get_theta_example:
  "\<exists>theta dots. get_theta 2 100000 (rng_id 2 (1/4)) = Inr (theta, dots)"
  by (rule get_theta_returns_some) simp_all

lemma return_matches_example:
  "\<exists>c. return_matches 2 2 2 theta 1 (rng_id 2 (1/4)) (rng_id 2 (1/4)) =
         Inr (of_int c / 4000, c, 4000)"
proof -
  have k: "(0::int) \<le> 2" and m4: "(1::int) \<le> 4" and m1000: "(1::int) \<le> 1000"
    and r1: "(0::real) \<le> 1 / of_int 2" and r2: "(0::real) \<le> 2 * 1 / of_int 2"
    and kw: "(2::int) \<noteq> 0"
    by simp_all
  from get_sparse_tensor_length [OF k k m4 r1, of False "rng_id 2 (1/4)"]
  obtain W where W: "get_sparse_tensor 2 2 4 False (1 / of_int 2) (rng_id 2 (1/4)) = Inr W"
    by blast
  from get_sparse_tensor_length [OF k k m1000 r2, of True "rng_id 2 (1/4)"]
  obtain V where V: "get_sparse_tensor 2 2 1000 True (2 * 1 / of_int 2) (rng_id 2 (1/4)) = Inr V"
    by blast
  from return_matches_returns [OF kw W V, of theta] show ?thesis by blast
qed

lemma return_false_negatives_example:
  "\<exists>c. return_false_negatives 2 (1/2) 2 theta (rng_id 2 (1/4)) perm_rev2 =
         Inr (of_int c / 10, c, 10)"
proof -
  have h1: "(1::int) \<le> 2" and h2: "(2::int) \<le> 2" and kw: "(2::int) \<noteq> 0" by simp_all
  have h3: "is_permutation (nat 2) (row_perm (rng_id 2 (1/4)) 0)"
    by (auto simp: is_permutation_def rng_id_def)
  have h4: "\<forall>j<nat 2. fill_row False (1 / of_int 2) (rng_id 2 (1/4)) (nat 2) 0 ! j \<noteq> 0"
    by (simp add: fill_row_def rng_id_def uniform_value_def)
  have h5: "\<forall>i<nat 10. is_permutation (nat 2) (perm_rev2 i)"
    by (auto simp: is_permutation_def perm_rev2_def)
  from false_negative_variants [OF h1 h2 h3 h4 h5, of "1/2"]
  obtain w vs where
    w: "get_sparse_tensor 2 2 1 False (1 / of_int 2) (rng_id 2 (1/4)) = Inr [w]" and
    pt: "get_permuted_tensors [[w]] 0 2 2 10 (1/2) perm_rev2 = Inr (1, [[w], vs])"
    by blast
  from return_false_negatives_returns [OF kw w pt, of theta] show ?thesis by blast
qed

lemma sum_list_pos_int:
  assumes "\<forall>t\<in>set ts. 0 < (f t :: int)" "ts \<noteq> []"
  shows "0 < sum_list (map f ts)"
  using assms
proof (induction ts)
  case Nil
  then show ?case by simp
next
  case (Cons t ts)
  show ?case
  proof (cases "ts = []")
    case True
    then show ?thesis using Cons.prems by simp
  next
    case False
    then have "0 < sum_list (map f ts)" using Cons by simp
    moreover have "0 < f t" using Cons.prems by simp
    ultimately show ?thesis by simp
  qed
qed

lemma compute_match_probability_with_pooled:
  assumes "get_int args ''k'' = Inr kv0" "get_int args ''n'' = Inr n"
    and "get_int args ''kw'' = Inr kw" "get_float args ''theta'' = Inr theta"
    and "get_int args ''n_trials'' = Inr n_trials"
    and "get_float args ''input_scaling'' = Inr s"
    and "1 \<le> n_trials"
    and "\<forall>t<nat n_trials.
           trial kw (if kv0 = - 1 then py_round (of_int n / 2) else kv0) n theta s t =
             Inr (pct t, num t, tot t)"
    and "\<forall>t<nat n_trials. 0 < tot t"
  shows "compute_match_probability_with trial args =
     Inr (args(''pct_matches'' \<mapsto>
            PyFloat (of_int (sum_list (map num [0..<nat n_trials])) /
                     of_int (sum_list (map tot [0..<nat n_trials])))))"
proof -
  let ?kv = "if kv0 = - 1 then py_round (of_int n / 2) else kv0"
  let ?trial = "\<lambda>t. bind_e (get_float args ''input_scaling'') (\<lambda>s. trial kw ?kv n theta s t)"
  have tr: "\<forall>t\<in>set [0..<nat n_trials]. ?trial t = Inr (pct t, num t, tot t)"
    using assms(6,8) by (simp add: bind_e_def)
  have loop: "run_trials ?trial [0..<nat n_trials] 0 0 =
      Inr (0 + sum_list (map num [0..<nat n_trials]), 0 + sum_list (map tot [0..<nat n_trials]))"
    by (rule run_trials_sum [OF tr])
  have "\<forall>t\<in>set [0..<nat n_trials]. 0 < tot t" using assms(9) by simp
  moreover have "[0..<nat n_trials] \<noteq> []" using assms(7) by simp
  ultimately have "0 < sum_list (map tot [0..<nat n_trials])" by (rule sum_list_pos_int)
  then have nz: "sum_list (map tot [0..<nat n_trials]) \<noteq> 0" by simp
  show ?thesis
    unfolding compute_match_probability_with_def
    using assms(1-5) loop nz by (simp add: bind_e_def Let_def py_truediv_def)
qed

lemma compute_false_negatives_with_pooled:
  assumes "get_int args ''n'' = Inr n" "get_int args ''kw'' = Inr kw"
    and "get_float args ''noise_pct'' = Inr noise_pct"
    and "get_int args ''n_trials'' = Inr n_trials"
    and "get_theta kw 100000 gtheta = Inr (theta, the_dots)"
    and "1 \<le> n_trials"
    and "\<forall>t<nat n_trials. trial kw noise_pct n theta t = Inr (pct t, num t, tot t)"
    and "\<forall>t<nat n_trials. 0 < tot t"
  shows "compute_false_negatives_with trial args gtheta =
     Inr (args(''pctFalse'' \<mapsto>
            PyFloat (1 - of_int (sum_list (map num [0..<nat n_trials])) /
                         of_int (sum_list (map tot [0..<nat n_trials])))))"
proof -
  let ?trial = "\<lambda>t. trial kw noise_pct n theta t"
  have tr: "\<forall>t\<in>set [0..<nat n_trials]. ?trial t = Inr (pct t, num t, tot t)"
    using assms(7) by simp
  have loop: "run_trials ?trial [0..<nat n_trials] 0 0 =
      Inr (0 + sum_list (map num [0..<nat n_trials]), 0 + sum_list (map tot [0..<nat n_trials]))"
    by (rule run_trials_sum [OF tr])
  have "\<forall>t\<in>set [0..<nat n_trials]. 0 < tot t" using assms(8) by simp
  moreover have "[0..<nat n_trials] \<noteq> []" using assms(6) by simp
  ultimately have "0 < sum_list (map tot [0..<nat n_trials])" by (rule sum_list_pos_int)
  then have nz: "sum_list (map tot [0..<nat n_trials]) \<noteq> 0" by simp
  show ?thesis
    unfolding compute_false_negatives_with_def
    using assms(1-5) loop nz by (simp add: bind_e_def Let_def py_truediv_def)
qed



subsection \<open>Claim C2: pooled counts\<close>

text \<open>
  C2.  For a trial count \<open>n_trials \<ge> 1\<close> and every single-trial evaluator whose
  repetitions return with positive totals, whatever fractions \<open>mpct\<close>, \<open>fpct\<close> and
  whatever (also unequal) totals the repetitions report, the body of each aggregator
  sums the match counts and the totals first and divides once at the end:
  \<^verbatim>\<open>compute_match_probability\<close> stores the sum of the counts over the sum of the
  totals under \<^verbatim>\<open>pct_matches\<close>, and \<^verbatim>\<open>compute_false_negatives\<close> stores one minus that
  quotient.  The reported fractions do not enter the result, so it is not their
  average; the module's aggregators are these bodies with the module's evaluators.
\<close>

theorem aggregators_pool_counts:
  assumes "1 \<le> n_trials"
    and "get_int margs ''k'' = Inr kv0" and "get_int margs ''n'' = Inr n"
    and "get_int margs ''kw'' = Inr kw" and "get_float margs ''theta'' = Inr theta"
    and "get_int margs ''n_trials'' = Inr n_trials"
    and "get_float margs ''input_scaling'' = Inr s"
    and "\<forall>t<nat n_trials.
           mtrial kw (if kv0 = - 1 then py_round (of_int n / 2) else kv0) n theta s t =
             Inr (mpct t, mnum t, mtot t)"
    and "\<forall>t<nat n_trials. 0 < mtot t"
    and "get_int fargs ''n'' = Inr n" and "get_int fargs ''kw'' = Inr kw"
    and "get_float fargs ''noise_pct'' = Inr noise_pct"
    and "get_int fargs ''n_trials'' = Inr n_trials"
    and "get_theta kw 100000 gtheta = Inr (ftheta, the_dots)"
    and "\<forall>t<nat n_trials. ftrial kw noise_pct n ftheta t = Inr (fpct t, fnum t, ftot t)"
    and "\<forall>t<nat n_trials. 0 < ftot t"
  shows "compute_match_probability_with mtrial margs =
           Inr (margs(''pct_matches'' \<mapsto>
                  PyFloat (of_int (sum_list (map mnum [0..<nat n_trials])) /
                           of_int (sum_list (map mtot [0..<nat n_trials]))))) \<and>
         compute_false_negatives_with ftrial fargs gtheta =
           Inr (fargs(''pctFalse'' \<mapsto>
                  PyFloat (1 - of_int (sum_list (map fnum [0..<nat n_trials])) /
                               of_int (sum_list (map ftot [0..<nat n_trials]))))) \<and>
         compute_match_probability margs mrng =
           compute_match_probability_with (match_trial mrng) margs \<and>
         compute_false_negatives fargs gtheta frng =
           compute_false_negatives_with (fn_trial frng) fargs gtheta"
proof (intro conjI)
  show "compute_match_probability_with mtrial margs =
           Inr (margs(''pct_matches'' \<mapsto>
                  PyFloat (of_int (sum_list (map mnum [0..<nat n_trials])) /
                           of_int (sum_list (map mtot [0..<nat n_trials])))))"
    by (rule compute_match_probability_with_pooled
          [where trial = mtrial and pct = mpct and num = mnum and tot = mtot,
           OF assms(2) assms(3) assms(4) assms(5) assms(6) assms(7) assms(1) assms(8) assms(9)])
  show "compute_false_negatives_with ftrial fargs gtheta =
           Inr (fargs(''pctFalse'' \<mapsto>
                  PyFloat (1 - of_int (sum_list (map fnum [0..<nat n_trials])) /
                               of_int (sum_list (map ftot [0..<nat n_trials])))))"
    by (rule compute_false_negatives_with_pooled
          [where trial = ftrial and pct = fpct and num = fnum and tot = ftot,
           OF assms(10) assms(11) assms(12) assms(13) assms(14) assms(1) assms(15) assms(16)])
  show "compute_match_probability margs mrng =
           compute_match_probability_with (match_trial mrng) margs"
    by (simp add: compute_match_probability_def)
  show "compute_false_negatives fargs gtheta frng =
           compute_false_negatives_with (fn_trial frng) fargs gtheta"
    by (simp add: compute_false_negatives_def)
qed

text \<open>
  At the evaluator with batch sizes 2 and 8 and fractions \<open>1/2\<close> and \<open>0\<close> the bodies
  store \<open>1/10\<close> and \<open>9/10\<close>, where the average of the fractions is \<open>1/4\<close>; with the
  module's evaluators both aggregators return.
\<close>

theorem aggregators_pool_counts_witness:
  "compute_match_probability_with (\<lambda>kw kv n theta s. unequal_trial)
       (match_settings 2 2 2 (1/100) 2 1 0 0) =
     Inr ((match_settings 2 2 2 (1/100) 2 1 0 0)(''pct_matches'' \<mapsto> PyFloat (1/10))) \<and>
   compute_false_negatives_with (\<lambda>kw noise_pct n theta. unequal_trial)
       (fn_settings 2 2 2 0 (1/2)) (rng_id 2 (1/4)) =
     Inr ((fn_settings 2 2 2 0 (1/2))(''pctFalse'' \<mapsto> PyFloat (9/10))) \<and>
   mean [1/2, 0] = 1/4 \<and>
   (\<exists>a b. compute_match_probability (match_settings 2 2 2 (1/100) 2 1 0 0) match_rng0 =
            Inr ((match_settings 2 2 2 (1/100) 2 1 0 0)(''pct_matches'' \<mapsto> PyFloat a)) \<and>
          compute_false_negatives (fn_settings 2 2 2 0 (1/2)) (rng_id 2 (1/4)) fn_rng0 =
            Inr ((fn_settings 2 2 2 0 (1/2))(''pctFalse'' \<mapsto> PyFloat b)))"
proof -
  let ?m = "match_settings 2 2 2 (1/100) 2 1 0 0"
  let ?f = "fn_settings 2 2 2 0 (1/2)"
  let ?pct = "\<lambda>t::nat. if t = 0 then (1/2 :: real) else 0"
  let ?num = "\<lambda>t::nat. if t = 0 then (1::int) else 0"
  let ?tot = "\<lambda>t::nat. if t = 0 then (2::int) else 8"
  have h1: "(1::int) \<le> 2" by simp
  have m: "get_int ?m ''k'' = Inr 2" "get_int ?m ''n'' = Inr 2" "get_int ?m ''kw'' = Inr 2"
    "get_float ?m ''theta'' = Inr (1/100)" "get_int ?m ''n_trials'' = Inr 2"
    "get_float ?m ''input_scaling'' = Inr 1"
    by (simp_all add: match_settings_def get_int_def get_float_def getitem_def bind_e_def)
  have f: "get_int ?f ''n'' = Inr 2" "get_int ?f ''kw'' = Inr 2"
    "get_float ?f ''noise_pct'' = Inr (1/2)" "get_int ?f ''n_trials'' = Inr 2"
    by (simp_all add: fn_settings_def get_int_def get_float_def getitem_def bind_e_def)
  obtain theta dots where th: "get_theta 2 100000 (rng_id 2 (1/4)) = Inr (theta, dots)"
    using get_theta_example by blast
  have ut: "\<forall>t<nat 2. (\<lambda>kw kv n theta s. unequal_trial) (2::int)
              (if (2::int) = - 1 then py_round (of_int 2 / 2) else 2) (2::int) (1/100 :: real)
              (1::real) t = Inr (?pct t, ?num t, ?tot t)"
    by (simp add: unequal_trial_def)
  have up: "\<forall>t<nat 2. 0 < ?tot t" by simp
  have uf: "\<forall>t<nat 2. (\<lambda>kw noise_pct n theta. unequal_trial) (2::int) (1/2 :: real) (2::int)
              theta t = Inr (?pct t, ?num t, ?tot t)"
    by (simp add: unequal_trial_def)
  have sums: "sum_list (map ?num [0..<nat 2]) = 1" "sum_list (map ?tot [0..<nat 2]) = 10"
    by (simp_all add: upt_rec)
  from aggregators_pool_counts
    [where mtrial = "\<lambda>kw kv n theta s. unequal_trial" and mpct = ?pct and mnum = ?num
       and mtot = ?tot and ftrial = "\<lambda>kw noise_pct n theta. unequal_trial" and fpct = ?pct
       and fnum = ?num and ftot = ?tot,
     OF h1 m ut up f th uf up]
  have u1: "compute_match_probability_with (\<lambda>kw kv n theta s. unequal_trial) ?m =
      Inr (?m(''pct_matches'' \<mapsto> PyFloat (1/10)))"
    and u2: "compute_false_negatives_with (\<lambda>kw noise_pct n theta. unequal_trial) ?f
        (rng_id 2 (1/4)) = Inr (?f(''pctFalse'' \<mapsto> PyFloat (9/10)))"
    unfolding sums by simp_all
  have av: "mean [1/2, 0] = 1/4" by (simp add: mean_def)
  obtain c where c: "return_matches 2 2 2 (1/100) 1 (rng_id 2 (1/4)) (rng_id 2 (1/4)) =
         Inr (of_int c / 4000, c, 4000)"
    using return_matches_example by blast
  have mt: "\<forall>t<nat 2. match_trial match_rng0 2
       (if (2::int) = - 1 then py_round (of_int 2 / 2) else 2) 2 (1/100) 1 t =
       Inr (of_int c / 4000, c, 4000)"
    using c by (simp add: match_rng0_def match_trial_def)
  have mp: "\<forall>t<nat 2. (0::int) < 4000" by simp
  obtain d where d: "return_false_negatives 2 (1/2) 2 theta (rng_id 2 (1/4)) perm_rev2 =
         Inr (of_int d / 10, d, 10)"
    using return_false_negatives_example by blast
  have ft: "\<forall>t<nat 2. fn_trial fn_rng0 2 (1/2) 2 theta t = Inr (of_int d / 10, d, 10)"
    using d by (simp add: fn_rng0_def fn_trial_def)
  have fp: "\<forall>t<nat 2. (0::int) < 10" by simp
  from aggregators_pool_counts
    [where mtrial = "match_trial match_rng0" and mpct = "\<lambda>t. of_int c / 4000"
       and mnum = "\<lambda>t. c" and mtot = "\<lambda>t. 4000" and ftrial = "fn_trial fn_rng0"
       and fpct = "\<lambda>t. of_int d / 10" and fnum = "\<lambda>t. d" and ftot = "\<lambda>t. 10"
       and mrng = match_rng0 and frng = fn_rng0,
     OF h1 m mt mp f th ft fp]
  have "\<exists>a b. compute_match_probability ?m match_rng0 =
            Inr (?m(''pct_matches'' \<mapsto> PyFloat a)) \<and>
          compute_false_negatives ?f (rng_id 2 (1/4)) fn_rng0 =
            Inr (?f(''pctFalse'' \<mapsto> PyFloat b))"
    by auto
  with u1 u2 av show ?thesis by blast
qed

subsection \<open>Claim C9: a zero total raises\<close>

text \<open>
  C9.  The final division of either aggregator raises \<^verbatim>\<open>ZeroDivisionError\<close> when the
  summed total is zero; in particular, for a trial count \<open>n_trials \<le> 0\<close> no repetition
  runs, the total is zero, and both aggregators raise instead of returning a record.
\<close>

theorem aggregators_zero_total_raises:
  assumes "n_trials \<le> 0"
    and "get_int margs ''k'' = Inr kv0" and "get_int margs ''n'' = Inr n"
    and "get_int margs ''kw'' = Inr kw" and "get_float margs ''theta'' = Inr theta"
    and "get_int margs ''n_trials'' = Inr n_trials"
    and "get_int fargs ''n'' = Inr n" and "get_int fargs ''kw'' = Inr kw"
    and "get_float fargs ''noise_pct'' = Inr noise_pct"
    and "get_int fargs ''n_trials'' = Inr n_trials"
    and "get_theta kw 100000 gtheta = Inr (ftheta, the_dots)"
  shows "py_truediv num_matches 0 = Inl ZeroDivisionError \<and>
         compute_match_probability margs mrng = Inl ZeroDivisionError \<and>
         compute_false_negatives fargs gtheta frng = Inl ZeroDivisionError"
proof (intro conjI)
  have e: "[0..<nat n_trials] = []" using assms(1) by simp
  show "py_truediv num_matches 0 = Inl ZeroDivisionError" by (simp add: py_truediv_def)
  show "compute_match_probability margs mrng = Inl ZeroDivisionError"
    unfolding compute_match_probability_def compute_match_probability_with_def match_trial_def
    using assms(2-6) e by (simp add: bind_e_def Let_def py_truediv_def)
  show "compute_false_negatives fargs gtheta frng = Inl ZeroDivisionError"
    unfolding compute_false_negatives_def compute_false_negatives_with_def fn_trial_def
    using assms(7-11) e by (simp add: bind_e_def Let_def py_truediv_def)
qed

theorem aggregators_zero_total_raises_witness:
  "compute_match_probability (match_settings 2 2 2 (1/100) 0 1 0 0) match_rng0 =
     Inl ZeroDivisionError \<and>
   compute_false_negatives (fn_settings 2 2 0 0 (1/2)) (rng_id 2 (1/4)) fn_rng0 =
     Inl ZeroDivisionError"
proof -
  let ?m = "match_settings 2 2 2 (1/100) 0 1 0 0"
  let ?f = "fn_settings 2 2 0 0 (1/2)"
  have h1: "(0::int) \<le> 0" by simp
  have m: "get_int ?m ''k'' = Inr 2" "get_int ?m ''n'' = Inr 2" "get_int ?m ''kw'' = Inr 2"
    "get_float ?m ''theta'' = Inr (1/100)" "get_int ?m ''n_trials'' = Inr 0"
    by (simp_all add: match_settings_def get_int_def get_float_def getitem_def bind_e_def)
  have f: "get_int ?f ''n'' = Inr 2" "get_int ?f ''kw'' = Inr 2"
    "get_float ?f ''noise_pct'' = Inr (1/2)" "get_int ?f ''n_trials'' = Inr 0"
    by (simp_all add: fn_settings_def get_int_def get_float_def getitem_def bind_e_def)
  obtain theta dots where th: "get_theta 2 100000 (rng_id 2 (1/4)) = Inr (theta, dots)"
    using get_theta_example by blast
  from aggregators_zero_total_raises [OF h1 m f th, of 0 match_rng0 fn_rng0]
  show ?thesis by simp
qed

section \<open>The false-negative sweep\<close>

lemma compute_false_negatives_keys:
  "compute_false_negatives a g r = Inr a' \<Longrightarrow> \<exists>x. a' = a(''pctFalse'' \<mapsto> PyFloat x)"
  by (auto simp: compute_false_negatives_def compute_false_negatives_with_def bind_e_def Let_def
      split: sum.splits prod.splits)

lemma run_workers_head:
  "run_workers worker e (a # rest) = Inr rs \<Longrightarrow>
     \<exists>r rs'. rs = r # rs' \<and> worker e a = Inr r"
  by (auto simp: bind_e_def split: sum.splits)

lemma fn_sweep_settings_Cons:
  "\<exists>rest. fn_sweep_settings (x # xs) kw n n_trials = fn_settings kw n n_trials 0 x # rest"
proof -
  have "[0..<length (x # xs)] = 0 # [Suc 0..<length (x # xs)]"
    by (rule upt_conv_Cons) simp
  then show ?thesis unfolding fn_sweep_settings_def by (simp del: upt_Suc)
qed

lemma fn_settings_no_pct_false: "(fn_settings kw n n_trials ni noise) ''pct_false'' = None"
  by (simp add: fn_settings_def)

lemma read_out_missing_key:
  "r ''pct_false'' = None \<Longrightarrow> read_out (r # rest) errors = Inl KeyError"
  by (simp add: get_float_def getitem_def bind_e_def)

lemma compute_false_negatives_example:
  "\<exists>b. compute_false_negatives (fn_settings 2 2 2 0 (1/2)) (rng_id 2 (1/4)) fn_rng0 =
            Inr ((fn_settings 2 2 2 0 (1/2))(''pctFalse'' \<mapsto> PyFloat b))"
proof -
  let ?f = "fn_settings 2 2 2 0 (1/2)"
  have h1: "(1::int) \<le> 2" by simp
  have f: "get_int ?f ''n'' = Inr 2" "get_int ?f ''kw'' = Inr 2"
    "get_float ?f ''noise_pct'' = Inr (1/2)" "get_int ?f ''n_trials'' = Inr 2"
    by (simp_all add: fn_settings_def get_int_def get_float_def getitem_def bind_e_def)
  obtain theta dots where th: "get_theta 2 100000 (rng_id 2 (1/4)) = Inr (theta, dots)"
    using get_theta_example by blast
  obtain d where d: "return_false_negatives 2 (1/2) 2 theta (rng_id 2 (1/4)) perm_rev2 =
         Inr (of_int d / 10, d, 10)"
    using return_false_negatives_example by blast
  have ft: "\<forall>t<nat 2. return_false_negatives 2 (1/2) 2 theta (fst (fn_rng0 t)) (snd (fn_rng0 t)) =
       Inr (of_int d / 10, d, 10)"
    using d by (simp add: fn_rng0_def)
  from compute_false_negatives_pooled [OF f th h1 ft] show ?thesis by blast
qed

subsection \<open>Claim C1: the read-out of the false-negative sweep\<close>

text \<open>
  C1, on the false-negative sweep.  The worker \<^verbatim>\<open>compute_false_negatives\<close> stores its
  rate under the key \<^verbatim>\<open>pctFalse\<close>; the read-out loop of the driver reads the key
  \<^verbatim>\<open>pct_false\<close>, which no record holds.  For a non-empty list of noise levels the
  driver therefore never reaches the filled array \<^verbatim>\<open>errors\<close>: it raises, and when
  every worker has returned, the exception is \<^verbatim>\<open>KeyError\<close> at the first result, for
  any number of workers.
\<close>

theorem false_negative_sweep_key_error:
  assumes "listof_noise \<noteq> []"
  shows "(\<exists>e. compute_false_negatives_parallel listof_noise kw num_workers n_trials n gs = Inl e) \<and>
         ((\<exists>result. run_workers (fn_worker gs) 0
                       (fn_sweep_settings listof_noise kw n n_trials) = Inr result) \<longrightarrow>
          compute_false_negatives_parallel listof_noise kw num_workers n_trials n gs =
            Inl KeyError)"
proof -
  from assms obtain x xs where l: "listof_noise = x # xs" by (cases listof_noise) auto
  define args where "args = fn_sweep_settings listof_noise kw n n_trials"
  obtain a0 rest where args: "args = a0 # rest" and a0: "a0 = fn_settings kw n n_trials 0 x"
    unfolding args_def l using fn_sweep_settings_Cons [of x xs kw n n_trials] by blast
  have drv: "compute_false_negatives_parallel listof_noise kw num_workers n_trials n gs =
      bind_e (run_workers (fn_worker gs) 0 args)
        (\<lambda>result. read_out result (replicate (length listof_noise) 0))"
    by (simp add: compute_false_negatives_parallel_def Let_def args_def)
  have ok: "compute_false_negatives_parallel listof_noise kw num_workers n_trials n gs =
      Inl KeyError" if "run_workers (fn_worker gs) 0 args = Inr result" for result
  proof -
    from run_workers_head [OF that [unfolded args]]
    obtain r rs' where rs: "result = r # rs'" and w: "fn_worker gs 0 a0 = Inr r" by blast
    from w obtain v where "r = a0(''pctFalse'' \<mapsto> PyFloat v)"
      unfolding fn_worker_def using compute_false_negatives_keys by blast
    then have "r ''pct_false'' = None" by (simp add: a0 fn_settings_no_pct_false)
    then have "read_out result (replicate (length listof_noise) 0) = Inl KeyError"
      unfolding rs by (rule read_out_missing_key)
    then show ?thesis using that by (simp add: drv bind_e_def)
  qed
  have "\<exists>e. compute_false_negatives_parallel listof_noise kw num_workers n_trials n gs = Inl e"
  proof (cases "run_workers (fn_worker gs) 0 args")
    case (Inl e)
    then show ?thesis by (simp add: drv bind_e_def)
  next
    case (Inr result)
    from ok [OF this] show ?thesis by blast
  qed
  then show ?thesis using ok unfolding args_def by blast
qed

theorem false_negative_sweep_key_error_witness:
  "compute_false_negatives_parallel [1/2] 2 1 2 2 sweep_rng0 = Inl KeyError \<and>
   compute_false_negatives_parallel [1/2] 2 4 2 2 sweep_rng0 = Inl KeyError"
proof -
  have ne: "[1/2 :: real] \<noteq> []" by simp
  obtain b where b: "compute_false_negatives (fn_settings 2 2 2 0 (1/2)) (rng_id 2 (1/4)) fn_rng0 =
            Inr ((fn_settings 2 2 2 0 (1/2))(''pctFalse'' \<mapsto> PyFloat b))"
    using compute_false_negatives_example by blast
  have run: "\<exists>result. run_workers (fn_worker sweep_rng0) 0 (fn_sweep_settings [1/2] 2 2 2) =
      Inr result"
    using b by (simp add: fn_sweep_settings_def fn_worker_def sweep_rng0_def bind_e_def)
  from false_negative_sweep_key_error [OF ne, of 2 1 2 2 sweep_rng0] run
  have one: "compute_false_negatives_parallel [1/2] 2 1 2 2 sweep_rng0 = Inl KeyError" by blast
  from false_negative_sweep_key_error [OF ne, of 2 4 2 2 sweep_rng0] run
  have four: "compute_false_negatives_parallel [1/2] 2 4 2 2 sweep_rng0 = Inl KeyError" by blast
  from one four show ?thesis by simp
qed

end
